theory Spec2Isabelle
  imports Complex_Main "HOL-Library.Sublist"
begin

section \<open>Python values and built-ins used by \<open>host-agent/listener.py\<close>\<close>

text \<open>
  A Python \<open>str\<close> is modelled as a \<open>string\<close>, one \<open>char\<close> per code unit; the program
  only compares strings, searches them and concatenates them.

  \<open>yaml.safe_load\<close> returns \<open>None\<close>, a \<open>bool\<close>, an \<open>int\<close>, a \<open>str\<close>, a \<open>list\<close>, a \<open>dict\<close>,
  or one of the remaining safe types (\<open>float\<close>, \<open>date\<close>, \<open>datetime\<close>, \<open>bytes\<close>, \<open>set\<close>).
  The remaining types are kept abstract in \<open>YOther\<close>. A \<open>dict\<close> is the list of its items;
  its keys are pairwise distinct.
\<close>

datatype 'o yaml =
    YNull
  | YBool bool
  | YInt int
  | YStr string
  | YSeq "'o yaml list"
  | YMap "('o yaml \<times> 'o yaml) list"
  | YOther 'o

text \<open>
  Exceptions. \<open>OSError\<close> stands for whatever exception \<open>subprocess.Popen\<close> raises and
  carries the text that \<open>str(e)\<close> gives.
\<close>

datatype py_error = AttributeError | TypeError | ValueError | YAMLError | OSError string

fun str_exc :: "py_error \<Rightarrow> string" where
  "str_exc (OSError m) = m"
| "str_exc e = []"

text \<open>
  The behaviour of the interpreter that is not reproduced here is a parameter: the
  built-ins on the abstract values, \<open>str\<close> on containers (which is \<open>repr\<close>), and \<open>int\<close>
  on a \<open>str\<close> (\<open>None\<close> is \<open>ValueError\<close>).
\<close>

record 'o builtins =
  bool_other :: "'o \<Rightarrow> bool"
  str_other :: "'o yaml \<Rightarrow> string"
  int_other :: "'o \<Rightarrow> py_error + int"
  int_str :: "string \<Rightarrow> int option"
  contains_other :: "'o \<Rightarrow> string \<Rightarrow> py_error + bool"

text \<open>\<open>bool(v)\<close>, the truth value that \<open>not v\<close> and \<open>v or d\<close> test.\<close>

fun py_bool :: "'o builtins \<Rightarrow> 'o yaml \<Rightarrow> bool" where
  "py_bool P YNull = False"
| "py_bool P (YBool b) = b"
| "py_bool P (YInt n) = (n \<noteq> 0)"
| "py_bool P (YStr s) = (s \<noteq> [])"
| "py_bool P (YSeq xs) = (xs \<noteq> [])"
| "py_bool P (YMap kvs) = (kvs \<noteq> [])"
| "py_bool P (YOther x) = bool_other P x"

text \<open>\<open>str(n)\<close> for an \<open>int\<close>: decimal digits, with a minus sign when negative.\<close>

fun digits10 :: "nat \<Rightarrow> string" where
  "digits10 n =
     (if n < 10 then [''0123456789'' ! n]
      else digits10 (n div 10) @ [''0123456789'' ! (n mod 10)])"

declare digits10.simps [simp del]

definition str_int :: "int \<Rightarrow> string" where
  "str_int n = (if n < 0 then CHR ''-'' # digits10 (nat (- n)) else digits10 (nat n))"

text \<open>\<open>str(v)\<close>.\<close>

fun py_str :: "'o builtins \<Rightarrow> 'o yaml \<Rightarrow> string" where
  "py_str P YNull = ''None''"
| "py_str P (YBool b) = (if b then ''True'' else ''False'')"
| "py_str P (YInt n) = str_int n"
| "py_str P (YStr s) = s"
| "py_str P v = str_other P v"

text \<open>\<open>int(v)\<close>.\<close>

fun py_int :: "'o builtins \<Rightarrow> 'o yaml \<Rightarrow> py_error + int" where
  "py_int P (YInt n) = Inr n"
| "py_int P (YBool b) = Inr (if b then 1 else 0)"
| "py_int P (YStr s) = (case int_str P s of None \<Rightarrow> Inl ValueError | Some n \<Rightarrow> Inr n)"
| "py_int P (YOther x) = int_other P x"
| "py_int P v = Inl TypeError"

text \<open>
  \<open>d.get(key, default)\<close> with a \<open>str\<close> key: only a \<open>dict\<close> has the method; any other
  value raises \<open>AttributeError\<close>.
\<close>

fun py_get :: "'o yaml \<Rightarrow> string \<Rightarrow> 'o yaml \<Rightarrow> py_error + 'o yaml" where
  "py_get (YMap kvs) key dflt =
     Inr (case map_of kvs (YStr key) of None \<Rightarrow> dflt | Some v \<Rightarrow> v)"
| "py_get v key dflt = Inl AttributeError"

text \<open>
  \<open>ip in v\<close> for a \<open>str\<close> \<open>ip\<close>: membership in a list (only a \<open>str\<close> element equals a
  \<open>str\<close>), substring of a \<open>str\<close>, key of a \<open>dict\<close>; \<open>None\<close>, \<open>bool\<close> and \<open>int\<close> are not
  iterable.
\<close>

fun py_in :: "'o builtins \<Rightarrow> string \<Rightarrow> 'o yaml \<Rightarrow> py_error + bool" where
  "py_in P ip (YSeq xs) = Inr (YStr ip \<in> set xs)"
| "py_in P ip (YStr s) = Inr (sublist ip s)"
| "py_in P ip (YMap kvs) = Inr (YStr ip \<in> fst ` set kvs)"
| "py_in P ip (YOther x) = contains_other P x ip"
| "py_in P ip v = Inl TypeError"

section \<open>Configuration: \<open>load_config\<close> and the module-level globals\<close>

text \<open>
  The process either stops (\<open>sys.exit(code)\<close>, or an uncaught exception, which ends the
  interpreter with exit status 1) or goes on.
\<close>

datatype halt = SysExit nat | Uncaught py_error

fun exit_code :: "halt \<Rightarrow> nat" where
  "exit_code (SysExit n) = n"
| "exit_code (Uncaught e) = 1"

text \<open>
  The configuration file as the program sees it: \<open>None\<close> when \<open>cfg_path.exists()\<close> is
  false, otherwise what opening and \<open>yaml.safe_load\<close> give (a document, or an exception).
  The \<open>print\<close> calls only write to standard output and are left out.
\<close>

type_synonym 'o config_file = "(py_error + 'o yaml) option"

definition load_config :: "'o config_file \<Rightarrow> halt + 'o yaml" where
  "load_config cfg_file =
     (case cfg_file of
        None \<Rightarrow> Inl (SysExit 1)
      | Some (Inl e) \<Rightarrow> Inl (Uncaught e)
      | Some (Inr config) \<Rightarrow> Inr config)"

text \<open>The globals that the request handlers read.\<close>

record 'o globals =
  SECRET_TOKEN :: string
  LISTEN_PORT :: int
  ALLOWED_IPS :: "'o yaml"

text \<open>\<open>SECRET_TOKEN = str(CFG.get("esp", {}).get("token", ""))\<close>\<close>

definition init_SECRET_TOKEN :: "'o builtins \<Rightarrow> 'o yaml \<Rightarrow> py_error + string" where
  "init_SECRET_TOKEN P CFG =
     (case py_get CFG ''esp'' (YMap []) of
        Inl e \<Rightarrow> Inl e
      | Inr esp \<Rightarrow>
          (case py_get esp ''token'' (YStr []) of
             Inl e \<Rightarrow> Inl e
           | Inr token \<Rightarrow> Inr (py_str P token)))"

text \<open>\<open>HOST_CFG = CFG.get("host", {})\<close>\<close>

definition init_HOST_CFG :: "'o yaml \<Rightarrow> py_error + 'o yaml" where
  "init_HOST_CFG CFG = py_get CFG ''host'' (YMap [])"

text \<open>\<open>LISTEN_PORT = int(HOST_CFG.get("port", 8888))\<close>\<close>

definition init_LISTEN_PORT :: "'o builtins \<Rightarrow> 'o yaml \<Rightarrow> py_error + int" where
  "init_LISTEN_PORT P HOST_CFG =
     (case py_get HOST_CFG ''port'' (YInt 8888) of
        Inl e \<Rightarrow> Inl e
      | Inr port \<Rightarrow> py_int P port)"

text \<open>\<open>ALLOWED_IPS = HOST_CFG.get("allowed_ips", []) or []\<close>\<close>

definition init_ALLOWED_IPS :: "'o builtins \<Rightarrow> 'o yaml \<Rightarrow> py_error + 'o yaml" where
  "init_ALLOWED_IPS P HOST_CFG =
     (case py_get HOST_CFG ''allowed_ips'' (YSeq []) of
        Inl e \<Rightarrow> Inl e
      | Inr ips \<Rightarrow> Inr (if py_bool P ips then ips else YSeq []))"

text \<open>The four assignments in the order of the module; the first exception ends the process.\<close>

definition init_globals :: "'o builtins \<Rightarrow> 'o yaml \<Rightarrow> py_error + 'o globals" where
  "init_globals P CFG =
     (case init_SECRET_TOKEN P CFG of
        Inl e \<Rightarrow> Inl e
      | Inr tok \<Rightarrow>
          (case init_HOST_CFG CFG of
             Inl e \<Rightarrow> Inl e
           | Inr host_cfg \<Rightarrow>
               (case init_LISTEN_PORT P host_cfg of
                  Inl e \<Rightarrow> Inl e
                | Inr port \<Rightarrow>
                    (case init_ALLOWED_IPS P host_cfg of
                       Inl e \<Rightarrow> Inl e
                     | Inr ips \<Rightarrow>
                         Inr \<lparr>SECRET_TOKEN = tok, LISTEN_PORT = port, ALLOWED_IPS = ips\<rparr>))))"

text \<open>
  \<open>main\<close>: \<open>Inr g\<close> means that \<open>app.run(host="0.0.0.0", port=LISTEN_PORT)\<close> is reached, that
  is, the listener binds and requests are served under the globals \<open>g\<close>.
\<close>

definition main :: "'o globals \<Rightarrow> halt + 'o globals" where
  "main g = (if SECRET_TOKEN g = [] then Inl (SysExit 1) else Inr g)"

text \<open>Running the file as a script: module body, then \<open>main()\<close>.\<close>

definition run_script :: "'o builtins \<Rightarrow> 'o config_file \<Rightarrow> halt + 'o globals" where
  "run_script P cfg_file =
     (case load_config cfg_file of
        Inl h \<Rightarrow> Inl h
      | Inr CFG \<Rightarrow>
          (case init_globals P CFG of
             Inl e \<Rightarrow> Inl (Uncaught e)
           | Inr g \<Rightarrow> main g))"

section \<open>The host and the effects of a request\<close>

text \<open>
  What the handlers read from the machine they run on: the results of \<open>platform.node()\<close>,
  \<open>platform.system()\<close> and \<open>platform.version()\<close>, the value of \<open>time.time()\<close> (a float, here
  the rational it denotes), and for each command whether \<open>subprocess.Popen\<close> raises
  (\<open>None\<close> when the child process is started).
\<close>

record host =
  platform_node :: string
  platform_system :: string
  platform_version :: string
  time_time :: rat
  popen_raises :: "string list \<Rightarrow> py_error option"

text \<open>
  What the handlers leave behind: the child processes started and the lines given to
  \<open>logger.error\<close>. The field \<open>calls\<close> is an observer: each dispatcher appends its name on
  entry, and no function reads it.
\<close>

record world =
  calls :: "string list"
  spawned :: "string list list"
  error_log :: "string list"

definition Popen :: "host \<Rightarrow> string list \<Rightarrow> world \<Rightarrow> (py_error + unit) \<times> world" where
  "Popen h cmd w =
     (case popen_raises h cmd of
        Some e \<Rightarrow> (Inl e, w)
      | None \<Rightarrow> (Inr (), w\<lparr>spawned := spawned w @ [cmd]\<rparr>))"

definition logger_error :: "string \<Rightarrow> world \<Rightarrow> world" where
  "logger_error msg w = w\<lparr>error_log := error_log w @ [msg]\<rparr>"

definition enter :: "string \<Rightarrow> world \<Rightarrow> world" where
  "enter name w = w\<lparr>calls := calls w @ [name]\<rparr>"

text \<open>\<open>int(x)\<close> for a float: the fractional part is dropped.\<close>

definition int_float :: "rat \<Rightarrow> int" where
  "int_float x = (if 0 \<le> x then \<lfloor>x\<rfloor> else \<lceil>x\<rceil>)"

section \<open>Power-action dispatchers\<close>

text \<open>
  Each dispatcher is a \<open>try\<close> block and its \<open>except Exception\<close> handler. The \<open>try\<close> block
  returns \<open>Inl e\<close> when a statement in it raises \<open>e\<close>.
\<close>

definition shutdown_try :: "host \<Rightarrow> world \<Rightarrow> (py_error + bool) \<times> world" where
  "shutdown_try h w =
     (let system = platform_system h in
      if system = ''Windows'' then
        (case Popen h [''shutdown'', ''/s'', ''/t'', ''0''] w of
           (Inl e, w') \<Rightarrow> (Inl e, w') | (Inr _, w') \<Rightarrow> (Inr True, w'))
      else if system = ''Linux'' then
        (case Popen h [''systemctl'', ''poweroff''] w of
           (Inl e, w') \<Rightarrow> (Inl e, w') | (Inr _, w') \<Rightarrow> (Inr True, w'))
      else if system = ''Darwin'' then
        (case Popen h [''sudo'', ''shutdown'', ''-h'', ''now''] w of
           (Inl e, w') \<Rightarrow> (Inl e, w') | (Inr _, w') \<Rightarrow> (Inr True, w'))
      else (Inr False, w))"

definition shutdown_computer :: "host \<Rightarrow> world \<Rightarrow> (py_error + bool) \<times> world" where
  "shutdown_computer h w =
     (case shutdown_try h (enter ''shutdown_computer'' w) of
        (Inr b, w') \<Rightarrow> (Inr b, w')
      | (Inl e, w') \<Rightarrow> (Inr False, logger_error (''shutdown failed: '' @ str_exc e) w'))"

definition ps_cmd :: string where
  "ps_cmd = ''(Add-Type -AssemblyName System.Windows.Forms); [System.Windows.Forms.Application]::SetSuspendState('' @ [CHR 0x27] @ ''Suspend'' @ [CHR 0x27] @ '',$false,$false)''"

definition sleep_try :: "host \<Rightarrow> world \<Rightarrow> (py_error + bool) \<times> world" where
  "sleep_try h w =
     (let system = platform_system h in
      if system = ''Windows'' then
        (case Popen h [''powershell'', ''-NoProfile'', ''-Command'', ps_cmd] w of
           (Inl e, w') \<Rightarrow> (Inl e, w') | (Inr _, w') \<Rightarrow> (Inr True, w'))
      else if system = ''Linux'' then
        (case Popen h [''systemctl'', ''suspend''] w of
           (Inl e, w') \<Rightarrow> (Inl e, w') | (Inr _, w') \<Rightarrow> (Inr True, w'))
      else if system = ''Darwin'' then
        (case Popen h [''pmset'', ''sleepnow''] w of
           (Inl e, w') \<Rightarrow> (Inl e, w') | (Inr _, w') \<Rightarrow> (Inr True, w'))
      else (Inr False, w))"

definition sleep_computer :: "host \<Rightarrow> world \<Rightarrow> (py_error + bool) \<times> world" where
  "sleep_computer h w =
     (case sleep_try h (enter ''sleep_computer'' w) of
        (Inr b, w') \<Rightarrow> (Inr b, w')
      | (Inl e, w') \<Rightarrow> (Inr False, logger_error (''sleep failed: '' @ str_exc e) w'))"

definition restart_try :: "host \<Rightarrow> world \<Rightarrow> (py_error + bool) \<times> world" where
  "restart_try h w =
     (let system = platform_system h in
      if system = ''Windows'' then
        (case Popen h [''shutdown'', ''/r'', ''/t'', ''0''] w of
           (Inl e, w') \<Rightarrow> (Inl e, w') | (Inr _, w') \<Rightarrow> (Inr True, w'))
      else if system = ''Linux'' then
        (case Popen h [''systemctl'', ''reboot''] w of
           (Inl e, w') \<Rightarrow> (Inl e, w') | (Inr _, w') \<Rightarrow> (Inr True, w'))
      else if system = ''Darwin'' then
        (case Popen h [''sudo'', ''shutdown'', ''-r'', ''now''] w of
           (Inl e, w') \<Rightarrow> (Inl e, w') | (Inr _, w') \<Rightarrow> (Inr True, w'))
      else (Inr False, w))"

definition restart_computer :: "host \<Rightarrow> world \<Rightarrow> (py_error + bool) \<times> world" where
  "restart_computer h w =
     (case restart_try h (enter ''restart_computer'' w) of
        (Inr b, w') \<Rightarrow> (Inr b, w')
      | (Inl e, w') \<Rightarrow> (Inr False, logger_error (''restart failed: '' @ str_exc e) w'))"

section \<open>Requests, responses and the gates\<close>

text \<open>
  Of a request the handlers read \<open>request.remote_addr\<close> and \<open>request.args\<close>, the
  query parameters in the order of the query string; \<open>args.get(key, default)\<close> gives the
  first value of the key.
\<close>

record request =
  remote_addr :: string
  args :: "(string \<times> string) list"

definition args_get :: "(string \<times> string) list \<Rightarrow> string \<Rightarrow> string \<Rightarrow> string" where
  "args_get a key dflt = (case map_of a key of None \<Rightarrow> dflt | Some v \<Rightarrow> v)"

datatype json = JString string | JNumber int | JObject "(string \<times> json) list"

text \<open>A response is the pair that a view returns: the JSON body and the HTTP status code.\<close>

type_synonym response = "json \<times> nat"

definition jsonify :: "(string \<times> json) list \<Rightarrow> json" where
  "jsonify d = JObject d"

text \<open>\<open>_authorized_client\<close> (an Isabelle name cannot start with an underscore).\<close>

definition authorized_client :: "'o builtins \<Rightarrow> 'o globals \<Rightarrow> string \<Rightarrow> py_error + bool" where
  "authorized_client P g ip =
     (if \<not> py_bool P (ALLOWED_IPS g) then Inr True
      else py_in P ip (ALLOWED_IPS g))"

text \<open>\<open>_check_token\<close>\<close>

definition check_token :: "'o globals \<Rightarrow> string \<Rightarrow> bool" where
  "check_token g req_token = (SECRET_TOKEN g \<noteq> [] \<and> req_token = SECRET_TOKEN g)"

section \<open>The views\<close>

text \<open>
  A view returns \<open>Inl e\<close> when it raises \<open>e\<close>. \<open>status\<close> returns only a body, which Flask
  sends with status code 200.
\<close>

definition status :: "'o globals \<Rightarrow> host \<Rightarrow> response" where
  "status g h =
     (jsonify [(''status'', JString ''running''),
               (''hostname'', JString (platform_node h)),
               (''os'', JString (platform_system h)),
               (''os_version'', JString (platform_version h)),
               (''port'', JNumber (LISTEN_PORT g)),
               (''uptime'', JNumber (int_float (time_time h)))], 200)"

definition route_sleep ::
  "'o builtins \<Rightarrow> 'o globals \<Rightarrow> host \<Rightarrow> request \<Rightarrow> world \<Rightarrow> (py_error + response) \<times> world" where
  "route_sleep P g h req w =
     (let client_ip = remote_addr req in
      case authorized_client P g client_ip of
        Inl e \<Rightarrow> (Inl e, w)
      | Inr False \<Rightarrow>
          (Inr (jsonify [(''status'', JString ''error''),
                         (''message'', JString ''Forbidden: IP not allowed'')], 403), w)
      | Inr True \<Rightarrow>
          (let token = args_get (args req) ''token'' [] in
           if \<not> check_token g token then
             (Inr (jsonify [(''status'', JString ''error''),
                            (''message'', JString ''Unauthorized'')], 401), w)
           else
             (case sleep_computer h w of
                (Inl e, w') \<Rightarrow> (Inl e, w')
              | (Inr ok, w') \<Rightarrow>
                  (Inr (if ok then (jsonify [(''status'', JString ''success'')], 200)
                        else (jsonify [(''status'', JString ''error'')], 500)), w'))))"

definition route_shutdown ::
  "'o builtins \<Rightarrow> 'o globals \<Rightarrow> host \<Rightarrow> request \<Rightarrow> world \<Rightarrow> (py_error + response) \<times> world" where
  "route_shutdown P g h req w =
     (let client_ip = remote_addr req in
      case authorized_client P g client_ip of
        Inl e \<Rightarrow> (Inl e, w)
      | Inr False \<Rightarrow>
          (Inr (jsonify [(''status'', JString ''error''),
                         (''message'', JString ''Forbidden: IP not allowed'')], 403), w)
      | Inr True \<Rightarrow>
          (let token = args_get (args req) ''token'' [] in
           if \<not> check_token g token then
             (Inr (jsonify [(''status'', JString ''error''),
                            (''message'', JString ''Unauthorized'')], 401), w)
           else
             (case shutdown_computer h w of
                (Inl e, w') \<Rightarrow> (Inl e, w')
              | (Inr ok, w') \<Rightarrow>
                  (Inr (if ok then (jsonify [(''status'', JString ''success'')], 200)
                        else (jsonify [(''status'', JString ''error'')], 500)), w'))))"

definition route_restart ::
  "'o builtins \<Rightarrow> 'o globals \<Rightarrow> host \<Rightarrow> request \<Rightarrow> world \<Rightarrow> (py_error + response) \<times> world" where
  "route_restart P g h req w =
     (let client_ip = remote_addr req in
      case authorized_client P g client_ip of
        Inl e \<Rightarrow> (Inl e, w)
      | Inr False \<Rightarrow>
          (Inr (jsonify [(''status'', JString ''error''),
                         (''message'', JString ''Forbidden: IP not allowed'')], 403), w)
      | Inr True \<Rightarrow>
          (let token = args_get (args req) ''token'' [] in
           if \<not> check_token g token then
             (Inr (jsonify [(''status'', JString ''error''),
                            (''message'', JString ''Unauthorized'')], 401), w)
           else
             (case restart_computer h w of
                (Inl e, w') \<Rightarrow> (Inl e, w')
              | (Inr ok, w') \<Rightarrow>
                  (Inr (if ok then (jsonify [(''status'', JString ''success'')], 200)
                        else (jsonify [(''status'', JString ''error'')], 500)), w'))))"

text \<open>
  The URL rules that the \<open>@app.route\<close> decorators register, for a \<open>GET\<close> request to
  \<open>path\<close>; \<open>None\<close> when no rule matches.
\<close>

definition app ::
  "'o builtins \<Rightarrow> 'o globals \<Rightarrow> host \<Rightarrow> string \<Rightarrow> request \<Rightarrow> world
     \<Rightarrow> ((py_error + response) \<times> world) option" where
  "app P g h path req w =
     (if path = ''/status'' then Some (Inr (status g h), w)
      else if path = ''/sleep'' then Some (route_sleep P g h req w)
      else if path = ''/shutdown'' then Some (route_shutdown P g h req w)
      else if path = ''/restart'' then Some (route_restart P g h req w)
      else None)"

section \<open>Reading a JSON body\<close>


fun json_field :: "json \<Rightarrow> string \<Rightarrow> json option" where
  "json_field (JObject d) key = map_of d key"
| "json_field j key = None"

section \<open>Concrete inputs\<close>

text \<open>
  An instance of the interpreter parameters for inputs in which no abstract value, no
  container rendering and no \<open>int\<close> of a \<open>str\<close> occurs, and a Linux host on which every
  command starts.
\<close>

definition plain_builtins :: "unit builtins" where
  "plain_builtins =
     \<lparr>bool_other = (\<lambda>x. True), str_other = (\<lambda>v. []), int_other = (\<lambda>x. Inl TypeError),
      int_str = (\<lambda>s. None), contains_other = (\<lambda>x ip. Inl TypeError)\<rparr>"

definition linux_host :: host where
  "linux_host =
     \<lparr>platform_node = ''pc'', platform_system = ''Linux'', platform_version = ''#1 SMP'',
      time_time = 1700000000 + 1 / 2, popen_raises = (\<lambda>cmd. None)\<rparr>"

text \<open>The same host without \<open>systemctl\<close>: every launch raises.\<close>

definition broken_host :: host where
  "broken_host = linux_host\<lparr>popen_raises := (\<lambda>cmd. Some (OSError ''No such file or directory''))\<rparr>"

definition fresh_world :: world where
  "fresh_world = \<lparr>calls = [], spawned = [], error_log = []\<rparr>"

section \<open>Properties of the dispatchers and of the views\<close>

lemma Popen_Inl: "fst (Popen h cmd w) = Inl e \<longleftrightarrow> popen_raises h cmd = Some e"
  by (simp add: Popen_def split: option.splits)

lemma sleep_try_Inl_world: "fst (sleep_try h w) = Inl e \<Longrightarrow> snd (sleep_try h w) = w"
  by (auto simp: sleep_try_def Let_def Popen_def split: if_splits option.splits)

lemma sleep_try_calls: "calls (snd (sleep_try h w)) = calls w"
  by (auto simp: sleep_try_def Let_def Popen_def split: if_splits option.splits)

lemma sleep_try_True:
  "fst (sleep_try h w) = Inr True \<longleftrightarrow>
     platform_system h \<in> {''Windows'', ''Linux'', ''Darwin''} \<and> (\<forall>e. fst (sleep_try h w) \<noteq> Inl e)"
  by (auto simp: sleep_try_def Let_def Popen_def split: if_splits option.splits)

lemma sleep_try_unrecognized:
  "platform_system h \<notin> {''Windows'', ''Linux'', ''Darwin''} \<Longrightarrow> sleep_try h w = (Inr False, w)"
  by (simp add: sleep_try_def)

lemma sleep_computer_returns: "\<exists>b. fst (sleep_computer h w) = Inr b"
  by (auto simp: sleep_computer_def split: prod.splits sum.splits)

lemma sleep_computer_calls: "calls (snd (sleep_computer h w)) = calls w @ [''sleep_computer'']"
  using sleep_try_calls [of h "enter ''sleep_computer'' w"]
  by (auto simp: sleep_computer_def enter_def logger_error_def split: prod.splits sum.splits)

lemma sleep_computer_True:
  "fst (sleep_computer h w) = Inr True \<longleftrightarrow>
     platform_system h \<in> {''Windows'', ''Linux'', ''Darwin''} \<and>
     (\<forall>e. fst (sleep_try h (enter ''sleep_computer'' w)) \<noteq> Inl e)"
  using sleep_try_True [of h "enter ''sleep_computer'' w"]
  by (auto simp: sleep_computer_def split: prod.splits sum.splits)

lemma sleep_computer_raised:
  "fst (sleep_try h (enter ''sleep_computer'' w)) = Inl e \<Longrightarrow>
   sleep_computer h w =
     (Inr False, logger_error (''sleep failed: '' @ str_exc e) (enter ''sleep_computer'' w))"
  using sleep_try_Inl_world [of h "enter ''sleep_computer'' w" e]
  by (auto simp: sleep_computer_def split: prod.splits sum.splits)

lemma sleep_computer_unrecognized:
  "platform_system h \<notin> {''Windows'', ''Linux'', ''Darwin''} \<Longrightarrow>
   sleep_computer h w = (Inr False, enter ''sleep_computer'' w)"
  by (simp add: sleep_computer_def sleep_try_unrecognized)

lemma route_sleep_raises:
  "authorized_client P g (remote_addr req) = Inl e \<Longrightarrow> route_sleep P g h req w = (Inl e, w)"
  by (simp add: route_sleep_def)

lemma route_sleep_forbidden:
  "authorized_client P g (remote_addr req) = Inr False \<Longrightarrow>
   route_sleep P g h req w =
     (Inr (jsonify [(''status'', JString ''error''),
                    (''message'', JString ''Forbidden: IP not allowed'')], 403), w)"
  by (simp add: route_sleep_def)

lemma route_sleep_unauthorized:
  "authorized_client P g (remote_addr req) = Inr True \<Longrightarrow>
   \<not> check_token g (args_get (args req) ''token'' []) \<Longrightarrow>
   route_sleep P g h req w =
     (Inr (jsonify [(''status'', JString ''error''),
                    (''message'', JString ''Unauthorized'')], 401), w)"
  by (simp add: route_sleep_def)

lemma route_sleep_dispatch:
  "authorized_client P g (remote_addr req) = Inr True \<Longrightarrow>
   check_token g (args_get (args req) ''token'' []) \<Longrightarrow>
   sleep_computer h w = (Inr ok, w') \<Longrightarrow>
   route_sleep P g h req w =
     (Inr (if ok then (jsonify [(''status'', JString ''success'')], 200)
           else (jsonify [(''status'', JString ''error'')], 500)), w')"
  by (simp add: route_sleep_def)

lemma shutdown_try_Inl_world: "fst (shutdown_try h w) = Inl e \<Longrightarrow> snd (shutdown_try h w) = w"
  by (auto simp: shutdown_try_def Let_def Popen_def split: if_splits option.splits)

lemma shutdown_try_calls: "calls (snd (shutdown_try h w)) = calls w"
  by (auto simp: shutdown_try_def Let_def Popen_def split: if_splits option.splits)

lemma shutdown_try_True:
  "fst (shutdown_try h w) = Inr True \<longleftrightarrow>
     platform_system h \<in> {''Windows'', ''Linux'', ''Darwin''} \<and> (\<forall>e. fst (shutdown_try h w) \<noteq> Inl e)"
  by (auto simp: shutdown_try_def Let_def Popen_def split: if_splits option.splits)

lemma shutdown_try_unrecognized:
  "platform_system h \<notin> {''Windows'', ''Linux'', ''Darwin''} \<Longrightarrow> shutdown_try h w = (Inr False, w)"
  by (simp add: shutdown_try_def)

lemma shutdown_computer_returns: "\<exists>b. fst (shutdown_computer h w) = Inr b"
  by (auto simp: shutdown_computer_def split: prod.splits sum.splits)

lemma shutdown_computer_calls: "calls (snd (shutdown_computer h w)) = calls w @ [''shutdown_computer'']"
  using shutdown_try_calls [of h "enter ''shutdown_computer'' w"]
  by (auto simp: shutdown_computer_def enter_def logger_error_def split: prod.splits sum.splits)

lemma shutdown_computer_True:
  "fst (shutdown_computer h w) = Inr True \<longleftrightarrow>
     platform_system h \<in> {''Windows'', ''Linux'', ''Darwin''} \<and>
     (\<forall>e. fst (shutdown_try h (enter ''shutdown_computer'' w)) \<noteq> Inl e)"
  using shutdown_try_True [of h "enter ''shutdown_computer'' w"]
  by (auto simp: shutdown_computer_def split: prod.splits sum.splits)

lemma shutdown_computer_raised:
  "fst (shutdown_try h (enter ''shutdown_computer'' w)) = Inl e \<Longrightarrow>
   shutdown_computer h w =
     (Inr False, logger_error (''shutdown failed: '' @ str_exc e) (enter ''shutdown_computer'' w))"
  using shutdown_try_Inl_world [of h "enter ''shutdown_computer'' w" e]
  by (auto simp: shutdown_computer_def split: prod.splits sum.splits)

lemma shutdown_computer_unrecognized:
  "platform_system h \<notin> {''Windows'', ''Linux'', ''Darwin''} \<Longrightarrow>
   shutdown_computer h w = (Inr False, enter ''shutdown_computer'' w)"
  by (simp add: shutdown_computer_def shutdown_try_unrecognized)

lemma route_shutdown_raises:
  "authorized_client P g (remote_addr req) = Inl e \<Longrightarrow> route_shutdown P g h req w = (Inl e, w)"
  by (simp add: route_shutdown_def)

lemma route_shutdown_forbidden:
  "authorized_client P g (remote_addr req) = Inr False \<Longrightarrow>
   route_shutdown P g h req w =
     (Inr (jsonify [(''status'', JString ''error''),
                    (''message'', JString ''Forbidden: IP not allowed'')], 403), w)"
  by (simp add: route_shutdown_def)

lemma route_shutdown_unauthorized:
  "authorized_client P g (remote_addr req) = Inr True \<Longrightarrow>
   \<not> check_token g (args_get (args req) ''token'' []) \<Longrightarrow>
   route_shutdown P g h req w =
     (Inr (jsonify [(''status'', JString ''error''),
                    (''message'', JString ''Unauthorized'')], 401), w)"
  by (simp add: route_shutdown_def)

lemma route_shutdown_dispatch:
  "authorized_client P g (remote_addr req) = Inr True \<Longrightarrow>
   check_token g (args_get (args req) ''token'' []) \<Longrightarrow>
   shutdown_computer h w = (Inr ok, w') \<Longrightarrow>
   route_shutdown P g h req w =
     (Inr (if ok then (jsonify [(''status'', JString ''success'')], 200)
           else (jsonify [(''status'', JString ''error'')], 500)), w')"
  by (simp add: route_shutdown_def)

lemma restart_try_Inl_world: "fst (restart_try h w) = Inl e \<Longrightarrow> snd (restart_try h w) = w"
  by (auto simp: restart_try_def Let_def Popen_def split: if_splits option.splits)

lemma restart_try_calls: "calls (snd (restart_try h w)) = calls w"
  by (auto simp: restart_try_def Let_def Popen_def split: if_splits option.splits)

lemma restart_try_True:
  "fst (restart_try h w) = Inr True \<longleftrightarrow>
     platform_system h \<in> {''Windows'', ''Linux'', ''Darwin''} \<and> (\<forall>e. fst (restart_try h w) \<noteq> Inl e)"
  by (auto simp: restart_try_def Let_def Popen_def split: if_splits option.splits)

lemma restart_try_unrecognized:
  "platform_system h \<notin> {''Windows'', ''Linux'', ''Darwin''} \<Longrightarrow> restart_try h w = (Inr False, w)"
  by (simp add: restart_try_def)

lemma restart_computer_returns: "\<exists>b. fst (restart_computer h w) = Inr b"
  by (auto simp: restart_computer_def split: prod.splits sum.splits)

lemma restart_computer_calls: "calls (snd (restart_computer h w)) = calls w @ [''restart_computer'']"
  using restart_try_calls [of h "enter ''restart_computer'' w"]
  by (auto simp: restart_computer_def enter_def logger_error_def split: prod.splits sum.splits)

lemma restart_computer_True:
  "fst (restart_computer h w) = Inr True \<longleftrightarrow>
     platform_system h \<in> {''Windows'', ''Linux'', ''Darwin''} \<and>
     (\<forall>e. fst (restart_try h (enter ''restart_computer'' w)) \<noteq> Inl e)"
  using restart_try_True [of h "enter ''restart_computer'' w"]
  by (auto simp: restart_computer_def split: prod.splits sum.splits)

lemma restart_computer_raised:
  "fst (restart_try h (enter ''restart_computer'' w)) = Inl e \<Longrightarrow>
   restart_computer h w =
     (Inr False, logger_error (''restart failed: '' @ str_exc e) (enter ''restart_computer'' w))"
  using restart_try_Inl_world [of h "enter ''restart_computer'' w" e]
  by (auto simp: restart_computer_def split: prod.splits sum.splits)

lemma restart_computer_unrecognized:
  "platform_system h \<notin> {''Windows'', ''Linux'', ''Darwin''} \<Longrightarrow>
   restart_computer h w = (Inr False, enter ''restart_computer'' w)"
  by (simp add: restart_computer_def restart_try_unrecognized)

lemma route_restart_raises:
  "authorized_client P g (remote_addr req) = Inl e \<Longrightarrow> route_restart P g h req w = (Inl e, w)"
  by (simp add: route_restart_def)

lemma route_restart_forbidden:
  "authorized_client P g (remote_addr req) = Inr False \<Longrightarrow>
   route_restart P g h req w =
     (Inr (jsonify [(''status'', JString ''error''),
                    (''message'', JString ''Forbidden: IP not allowed'')], 403), w)"
  by (simp add: route_restart_def)

lemma route_restart_unauthorized:
  "authorized_client P g (remote_addr req) = Inr True \<Longrightarrow>
   \<not> check_token g (args_get (args req) ''token'' []) \<Longrightarrow>
   route_restart P g h req w =
     (Inr (jsonify [(''status'', JString ''error''),
                    (''message'', JString ''Unauthorized'')], 401), w)"
  by (simp add: route_restart_def)

lemma route_restart_dispatch:
  "authorized_client P g (remote_addr req) = Inr True \<Longrightarrow>
   check_token g (args_get (args req) ''token'' []) \<Longrightarrow>
   restart_computer h w = (Inr ok, w') \<Longrightarrow>
   route_restart P g h req w =
     (Inr (if ok then (jsonify [(''status'', JString ''success'')], 200)
           else (jsonify [(''status'', JString ''error'')], 500)), w')"
  by (simp add: route_restart_def)

lemma route_sleep_pass:
  assumes "authorized_client P g (remote_addr req) = Inr True"
      and "check_token g (args_get (args req) ''token'' [])"
  shows "\<exists>ok. fst (sleep_computer h w) = Inr ok \<and>
           route_sleep P g h req w =
             (Inr (if ok then (jsonify [(''status'', JString ''success'')], 200)
                   else (jsonify [(''status'', JString ''error'')], 500)),
              snd (sleep_computer h w))"
proof -
  obtain ok where ok: "fst (sleep_computer h w) = Inr ok"
    using sleep_computer_returns by blast
  then have "sleep_computer h w = (Inr ok, snd (sleep_computer h w))"
    by (metis prod.collapse)
  from route_sleep_dispatch [OF assms this] ok show ?thesis by blast
qed

lemma route_shutdown_pass:
  assumes "authorized_client P g (remote_addr req) = Inr True"
      and "check_token g (args_get (args req) ''token'' [])"
  shows "\<exists>ok. fst (shutdown_computer h w) = Inr ok \<and>
           route_shutdown P g h req w =
             (Inr (if ok then (jsonify [(''status'', JString ''success'')], 200)
                   else (jsonify [(''status'', JString ''error'')], 500)),
              snd (shutdown_computer h w))"
proof -
  obtain ok where ok: "fst (shutdown_computer h w) = Inr ok"
    using shutdown_computer_returns by blast
  then have "shutdown_computer h w = (Inr ok, snd (shutdown_computer h w))"
    by (metis prod.collapse)
  from route_shutdown_dispatch [OF assms this] ok show ?thesis by blast
qed

lemma route_restart_pass:
  assumes "authorized_client P g (remote_addr req) = Inr True"
      and "check_token g (args_get (args req) ''token'' [])"
  shows "\<exists>ok. fst (restart_computer h w) = Inr ok \<and>
           route_restart P g h req w =
             (Inr (if ok then (jsonify [(''status'', JString ''success'')], 200)
                   else (jsonify [(''status'', JString ''error'')], 500)),
              snd (restart_computer h w))"
proof -
  obtain ok where ok: "fst (restart_computer h w) = Inr ok"
    using restart_computer_returns by blast
  then have "restart_computer h w = (Inr ok, snd (restart_computer h w))"
    by (metis prod.collapse)
  from route_restart_dispatch [OF assms this] ok show ?thesis by blast
qed

lemma app_privileged:
  "app P g h ''/sleep'' req w = Some (route_sleep P g h req w)"
  "app P g h ''/shutdown'' req w = Some (route_shutdown P g h req w)"
  "app P g h ''/restart'' req w = Some (route_restart P g h req w)"
  by (simp_all add: app_def)

lemma authorized_client_list:
  "ALLOWED_IPS g = YSeq xs \<Longrightarrow>
   authorized_client P g ip = Inr (xs = [] \<or> YStr ip \<in> set xs)"
  by (auto simp: authorized_client_def)

lemma sleep_try_spawned:
  "length (spawned (snd (sleep_try h w))) =
     length (spawned w) + (if fst (sleep_try h w) = Inr True then 1 else 0)"
  by (auto simp: sleep_try_def Let_def Popen_def split: if_splits option.splits)

lemma sleep_computer_run:
  "\<exists>ok w'. sleep_computer h w = (Inr ok, w') \<and>
     calls w' = calls w @ [''sleep_computer''] \<and>
     length (spawned w') = length (spawned w) + (if ok then 1 else 0) \<and>
     ok = (platform_system h \<in> {''Windows'', ''Linux'', ''Darwin''} \<and>
           (\<forall>e. fst (sleep_try h (enter ''sleep_computer'' w)) \<noteq> Inl e))"
proof -
  obtain ok where ok: "fst (sleep_computer h w) = Inr ok"
    using sleep_computer_returns by blast
  define w' where "w' = snd (sleep_computer h w)"
  have run: "sleep_computer h w = (Inr ok, w')"
    using ok by (simp add: w'_def prod_eq_iff)
  have c: "calls w' = calls w @ [''sleep_computer'']"
    by (simp add: w'_def sleep_computer_calls)
  have t: "ok = (platform_system h \<in> {''Windows'', ''Linux'', ''Darwin''} \<and>
           (\<forall>e. fst (sleep_try h (enter ''sleep_computer'' w)) \<noteq> Inl e))"
    using sleep_computer_True [of h w] ok by simp
  have "length (spawned w') = length (spawned w) + (if ok then 1 else 0)"
    using run sleep_try_spawned [of h "enter ''sleep_computer'' w"]
    by (auto simp: sleep_computer_def enter_def logger_error_def split: prod.splits sum.splits)
  with run c t show ?thesis by blast
qed

lemma shutdown_try_spawned:
  "length (spawned (snd (shutdown_try h w))) =
     length (spawned w) + (if fst (shutdown_try h w) = Inr True then 1 else 0)"
  by (auto simp: shutdown_try_def Let_def Popen_def split: if_splits option.splits)

lemma shutdown_computer_run:
  "\<exists>ok w'. shutdown_computer h w = (Inr ok, w') \<and>
     calls w' = calls w @ [''shutdown_computer''] \<and>
     length (spawned w') = length (spawned w) + (if ok then 1 else 0) \<and>
     ok = (platform_system h \<in> {''Windows'', ''Linux'', ''Darwin''} \<and>
           (\<forall>e. fst (shutdown_try h (enter ''shutdown_computer'' w)) \<noteq> Inl e))"
proof -
  obtain ok where ok: "fst (shutdown_computer h w) = Inr ok"
    using shutdown_computer_returns by blast
  define w' where "w' = snd (shutdown_computer h w)"
  have run: "shutdown_computer h w = (Inr ok, w')"
    using ok by (simp add: w'_def prod_eq_iff)
  have c: "calls w' = calls w @ [''shutdown_computer'']"
    by (simp add: w'_def shutdown_computer_calls)
  have t: "ok = (platform_system h \<in> {''Windows'', ''Linux'', ''Darwin''} \<and>
           (\<forall>e. fst (shutdown_try h (enter ''shutdown_computer'' w)) \<noteq> Inl e))"
    using shutdown_computer_True [of h w] ok by simp
  have "length (spawned w') = length (spawned w) + (if ok then 1 else 0)"
    using run shutdown_try_spawned [of h "enter ''shutdown_computer'' w"]
    by (auto simp: shutdown_computer_def enter_def logger_error_def split: prod.splits sum.splits)
  with run c t show ?thesis by blast
qed

lemma restart_try_spawned:
  "length (spawned (snd (restart_try h w))) =
     length (spawned w) + (if fst (restart_try h w) = Inr True then 1 else 0)"
  by (auto simp: restart_try_def Let_def Popen_def split: if_splits option.splits)

lemma restart_computer_run:
  "\<exists>ok w'. restart_computer h w = (Inr ok, w') \<and>
     calls w' = calls w @ [''restart_computer''] \<and>
     length (spawned w') = length (spawned w) + (if ok then 1 else 0) \<and>
     ok = (platform_system h \<in> {''Windows'', ''Linux'', ''Darwin''} \<and>
           (\<forall>e. fst (restart_try h (enter ''restart_computer'' w)) \<noteq> Inl e))"
proof -
  obtain ok where ok: "fst (restart_computer h w) = Inr ok"
    using restart_computer_returns by blast
  define w' where "w' = snd (restart_computer h w)"
  have run: "restart_computer h w = (Inr ok, w')"
    using ok by (simp add: w'_def prod_eq_iff)
  have c: "calls w' = calls w @ [''restart_computer'']"
    by (simp add: w'_def restart_computer_calls)
  have t: "ok = (platform_system h \<in> {''Windows'', ''Linux'', ''Darwin''} \<and>
           (\<forall>e. fst (restart_try h (enter ''restart_computer'' w)) \<noteq> Inl e))"
    using restart_computer_True [of h w] ok by simp
  have "length (spawned w') = length (spawned w) + (if ok then 1 else 0)"
    using run restart_try_spawned [of h "enter ''restart_computer'' w"]
    by (auto simp: restart_computer_def enter_def logger_error_def split: prod.splits sum.splits)
  with run c t show ?thesis by blast
qed

lemma sleep_try_raises:
  "fst (sleep_try h w) = Inl e \<longleftrightarrow>
     (platform_system h = ''Windows'' \<and> popen_raises h [''powershell'', ''-NoProfile'', ''-Command'', ps_cmd] = Some e \<or>
      platform_system h = ''Linux'' \<and> popen_raises h [''systemctl'', ''suspend''] = Some e \<or>
      platform_system h = ''Darwin'' \<and> popen_raises h [''pmset'', ''sleepnow''] = Some e)"
  by (auto simp: sleep_try_def Let_def Popen_def split: if_splits option.splits)

lemma sleep_computer_spec:
  "(\<exists>b. fst (sleep_computer h w) = Inr b) \<and>
   (fst (sleep_computer h w) = Inr True \<longleftrightarrow>
      platform_system h \<in> {''Windows'', ''Linux'', ''Darwin''} \<and>
      (\<forall>e. fst (sleep_try h (enter ''sleep_computer'' w)) \<noteq> Inl e)) \<and>
   (platform_system h \<notin> {''Windows'', ''Linux'', ''Darwin''} \<longrightarrow>
      sleep_computer h w = (Inr False, enter ''sleep_computer'' w)) \<and>
   (\<forall>e. fst (sleep_try h (enter ''sleep_computer'' w)) = Inl e \<longrightarrow>
      sleep_computer h w =
        (Inr False, logger_error (''sleep failed: '' @ str_exc e) (enter ''sleep_computer'' w))) \<and>
   (\<forall>e. fst (sleep_try h (enter ''sleep_computer'' w)) = Inl e \<longleftrightarrow>
      (platform_system h = ''Windows'' \<and> popen_raises h [''powershell'', ''-NoProfile'', ''-Command'', ps_cmd] = Some e \<or>
       platform_system h = ''Linux'' \<and> popen_raises h [''systemctl'', ''suspend''] = Some e \<or>
       platform_system h = ''Darwin'' \<and> popen_raises h [''pmset'', ''sleepnow''] = Some e)) \<and>
   (\<forall>w'. authorized_client P g (remote_addr req) = Inr True \<and>
      check_token g (args_get (args req) ''token'' []) \<and>
      sleep_computer h w = (Inr False, w') \<longrightarrow>
      app P g h ''/sleep'' req w = Some (Inr (jsonify [(''status'', JString ''error'')], 500), w'))"
proof (intro conjI allI impI)
  show "\<exists>b. fst (sleep_computer h w) = Inr b"
    by (rule sleep_computer_returns)
  show "fst (sleep_computer h w) = Inr True \<longleftrightarrow>
      platform_system h \<in> {''Windows'', ''Linux'', ''Darwin''} \<and>
      (\<forall>e. fst (sleep_try h (enter ''sleep_computer'' w)) \<noteq> Inl e)"
    by (rule sleep_computer_True)
  show "sleep_computer h w = (Inr False, enter ''sleep_computer'' w)"
    if "platform_system h \<notin> {''Windows'', ''Linux'', ''Darwin''}"
    using that by (rule sleep_computer_unrecognized)
  show "sleep_computer h w =
        (Inr False, logger_error (''sleep failed: '' @ str_exc e) (enter ''sleep_computer'' w))"
    if "fst (sleep_try h (enter ''sleep_computer'' w)) = Inl e" for e
    using that by (rule sleep_computer_raised)
  show "fst (sleep_try h (enter ''sleep_computer'' w)) = Inl e \<longleftrightarrow>
      (platform_system h = ''Windows'' \<and> popen_raises h [''powershell'', ''-NoProfile'', ''-Command'', ps_cmd] = Some e \<or>
       platform_system h = ''Linux'' \<and> popen_raises h [''systemctl'', ''suspend''] = Some e \<or>
       platform_system h = ''Darwin'' \<and> popen_raises h [''pmset'', ''sleepnow''] = Some e)" for e
    by (rule sleep_try_raises)
  show "app P g h ''/sleep'' req w = Some (Inr (jsonify [(''status'', JString ''error'')], 500), w')"
    if "authorized_client P g (remote_addr req) = Inr True \<and>
      check_token g (args_get (args req) ''token'' []) \<and>
      sleep_computer h w = (Inr False, w')" for w'
    using that route_sleep_dispatch [of P g req h w False w'] by (simp add: app_privileged)
qed

lemma shutdown_try_raises:
  "fst (shutdown_try h w) = Inl e \<longleftrightarrow>
     (platform_system h = ''Windows'' \<and> popen_raises h [''shutdown'', ''/s'', ''/t'', ''0''] = Some e \<or>
      platform_system h = ''Linux'' \<and> popen_raises h [''systemctl'', ''poweroff''] = Some e \<or>
      platform_system h = ''Darwin'' \<and> popen_raises h [''sudo'', ''shutdown'', ''-h'', ''now''] = Some e)"
  by (auto simp: shutdown_try_def Let_def Popen_def split: if_splits option.splits)

lemma shutdown_computer_spec:
  "(\<exists>b. fst (shutdown_computer h w) = Inr b) \<and>
   (fst (shutdown_computer h w) = Inr True \<longleftrightarrow>
      platform_system h \<in> {''Windows'', ''Linux'', ''Darwin''} \<and>
      (\<forall>e. fst (shutdown_try h (enter ''shutdown_computer'' w)) \<noteq> Inl e)) \<and>
   (platform_system h \<notin> {''Windows'', ''Linux'', ''Darwin''} \<longrightarrow>
      shutdown_computer h w = (Inr False, enter ''shutdown_computer'' w)) \<and>
   (\<forall>e. fst (shutdown_try h (enter ''shutdown_computer'' w)) = Inl e \<longrightarrow>
      shutdown_computer h w =
        (Inr False, logger_error (''shutdown failed: '' @ str_exc e) (enter ''shutdown_computer'' w))) \<and>
   (\<forall>e. fst (shutdown_try h (enter ''shutdown_computer'' w)) = Inl e \<longleftrightarrow>
      (platform_system h = ''Windows'' \<and> popen_raises h [''shutdown'', ''/s'', ''/t'', ''0''] = Some e \<or>
       platform_system h = ''Linux'' \<and> popen_raises h [''systemctl'', ''poweroff''] = Some e \<or>
       platform_system h = ''Darwin'' \<and> popen_raises h [''sudo'', ''shutdown'', ''-h'', ''now''] = Some e)) \<and>
   (\<forall>w'. authorized_client P g (remote_addr req) = Inr True \<and>
      check_token g (args_get (args req) ''token'' []) \<and>
      shutdown_computer h w = (Inr False, w') \<longrightarrow>
      app P g h ''/shutdown'' req w = Some (Inr (jsonify [(''status'', JString ''error'')], 500), w'))"
proof (intro conjI allI impI)
  show "\<exists>b. fst (shutdown_computer h w) = Inr b"
    by (rule shutdown_computer_returns)
  show "fst (shutdown_computer h w) = Inr True \<longleftrightarrow>
      platform_system h \<in> {''Windows'', ''Linux'', ''Darwin''} \<and>
      (\<forall>e. fst (shutdown_try h (enter ''shutdown_computer'' w)) \<noteq> Inl e)"
    by (rule shutdown_computer_True)
  show "shutdown_computer h w = (Inr False, enter ''shutdown_computer'' w)"
    if "platform_system h \<notin> {''Windows'', ''Linux'', ''Darwin''}"
    using that by (rule shutdown_computer_unrecognized)
  show "shutdown_computer h w =
        (Inr False, logger_error (''shutdown failed: '' @ str_exc e) (enter ''shutdown_computer'' w))"
    if "fst (shutdown_try h (enter ''shutdown_computer'' w)) = Inl e" for e
    using that by (rule shutdown_computer_raised)
  show "fst (shutdown_try h (enter ''shutdown_computer'' w)) = Inl e \<longleftrightarrow>
      (platform_system h = ''Windows'' \<and> popen_raises h [''shutdown'', ''/s'', ''/t'', ''0''] = Some e \<or>
       platform_system h = ''Linux'' \<and> popen_raises h [''systemctl'', ''poweroff''] = Some e \<or>
       platform_system h = ''Darwin'' \<and> popen_raises h [''sudo'', ''shutdown'', ''-h'', ''now''] = Some e)" for e
    by (rule shutdown_try_raises)
  show "app P g h ''/shutdown'' req w = Some (Inr (jsonify [(''status'', JString ''error'')], 500), w')"
    if "authorized_client P g (remote_addr req) = Inr True \<and>
      check_token g (args_get (args req) ''token'' []) \<and>
      shutdown_computer h w = (Inr False, w')" for w'
    using that route_shutdown_dispatch [of P g req h w False w'] by (simp add: app_privileged)
qed

lemma restart_try_raises:
  "fst (restart_try h w) = Inl e \<longleftrightarrow>
     (platform_system h = ''Windows'' \<and> popen_raises h [''shutdown'', ''/r'', ''/t'', ''0''] = Some e \<or>
      platform_system h = ''Linux'' \<and> popen_raises h [''systemctl'', ''reboot''] = Some e \<or>
      platform_system h = ''Darwin'' \<and> popen_raises h [''sudo'', ''shutdown'', ''-r'', ''now''] = Some e)"
  by (auto simp: restart_try_def Let_def Popen_def split: if_splits option.splits)

lemma restart_computer_spec:
  "(\<exists>b. fst (restart_computer h w) = Inr b) \<and>
   (fst (restart_computer h w) = Inr True \<longleftrightarrow>
      platform_system h \<in> {''Windows'', ''Linux'', ''Darwin''} \<and>
      (\<forall>e. fst (restart_try h (enter ''restart_computer'' w)) \<noteq> Inl e)) \<and>
   (platform_system h \<notin> {''Windows'', ''Linux'', ''Darwin''} \<longrightarrow>
      restart_computer h w = (Inr False, enter ''restart_computer'' w)) \<and>
   (\<forall>e. fst (restart_try h (enter ''restart_computer'' w)) = Inl e \<longrightarrow>
      restart_computer h w =
        (Inr False, logger_error (''restart failed: '' @ str_exc e) (enter ''restart_computer'' w))) \<and>
   (\<forall>e. fst (restart_try h (enter ''restart_computer'' w)) = Inl e \<longleftrightarrow>
      (platform_system h = ''Windows'' \<and> popen_raises h [''shutdown'', ''/r'', ''/t'', ''0''] = Some e \<or>
       platform_system h = ''Linux'' \<and> popen_raises h [''systemctl'', ''reboot''] = Some e \<or>
       platform_system h = ''Darwin'' \<and> popen_raises h [''sudo'', ''shutdown'', ''-r'', ''now''] = Some e)) \<and>
   (\<forall>w'. authorized_client P g (remote_addr req) = Inr True \<and>
      check_token g (args_get (args req) ''token'' []) \<and>
      restart_computer h w = (Inr False, w') \<longrightarrow>
      app P g h ''/restart'' req w = Some (Inr (jsonify [(''status'', JString ''error'')], 500), w'))"
proof (intro conjI allI impI)
  show "\<exists>b. fst (restart_computer h w) = Inr b"
    by (rule restart_computer_returns)
  show "fst (restart_computer h w) = Inr True \<longleftrightarrow>
      platform_system h \<in> {''Windows'', ''Linux'', ''Darwin''} \<and>
      (\<forall>e. fst (restart_try h (enter ''restart_computer'' w)) \<noteq> Inl e)"
    by (rule restart_computer_True)
  show "restart_computer h w = (Inr False, enter ''restart_computer'' w)"
    if "platform_system h \<notin> {''Windows'', ''Linux'', ''Darwin''}"
    using that by (rule restart_computer_unrecognized)
  show "restart_computer h w =
        (Inr False, logger_error (''restart failed: '' @ str_exc e) (enter ''restart_computer'' w))"
    if "fst (restart_try h (enter ''restart_computer'' w)) = Inl e" for e
    using that by (rule restart_computer_raised)
  show "fst (restart_try h (enter ''restart_computer'' w)) = Inl e \<longleftrightarrow>
      (platform_system h = ''Windows'' \<and> popen_raises h [''shutdown'', ''/r'', ''/t'', ''0''] = Some e \<or>
       platform_system h = ''Linux'' \<and> popen_raises h [''systemctl'', ''reboot''] = Some e \<or>
       platform_system h = ''Darwin'' \<and> popen_raises h [''sudo'', ''shutdown'', ''-r'', ''now''] = Some e)" for e
    by (rule restart_try_raises)
  show "app P g h ''/restart'' req w = Some (Inr (jsonify [(''status'', JString ''error'')], 500), w')"
    if "authorized_client P g (remote_addr req) = Inr True \<and>
      check_token g (args_get (args req) ''token'' []) \<and>
      restart_computer h w = (Inr False, w')" for w'
    using that route_restart_dispatch [of P g req h w False w'] by (simp add: app_privileged)
qed

lemma init_globals_secret:
  "init_globals P CFG = Inr g \<Longrightarrow> init_SECRET_TOKEN P CFG = Inr (SECRET_TOKEN g)"
  by (auto simp: init_globals_def split: sum.splits)

lemma run_script_absent: "run_script P None = Inl (SysExit 1)"
  by (simp add: run_script_def load_config_def)

lemma run_script_halt: "run_script P cfg_file = Inl hlt \<Longrightarrow> exit_code hlt \<noteq> 0"
  by (auto simp: run_script_def load_config_def main_def
      split: option.splits sum.splits if_splits)

lemma run_script_serving:
  "run_script P cfg_file = Inr g \<Longrightarrow>
   (\<exists>CFG. cfg_file = Some (Inr CFG) \<and> init_globals P CFG = Inr g) \<and> SECRET_TOKEN g \<noteq> []"
  by (auto simp: run_script_def load_config_def main_def
      split: option.splits sum.splits if_splits)

lemma run_script_empty_secret:
  assumes "init_SECRET_TOKEN P CFG = Inr []"
  shows "\<exists>hlt. run_script P (Some (Inr CFG)) = Inl hlt \<and> exit_code hlt \<noteq> 0"
proof (cases "init_globals P CFG")
  case (Inl e)
  then show ?thesis by (simp add: run_script_def load_config_def)
next
  case (Inr g)
  with assms have "SECRET_TOKEN g = []"
    using init_globals_secret by fastforce
  with Inr show ?thesis by (simp add: run_script_def load_config_def main_def)
qed

lemma linux_host_fields:
  "platform_node linux_host = ''pc''" "platform_system linux_host = ''Linux''"
  "platform_version linux_host = ''#1 SMP''" "time_time linux_host = 3400000001 / 2"
  by (simp_all add: linux_host_def)

lemma linux_host_uptime: "int_float (time_time linux_host) = 1700000000"
  by (simp add: linux_host_def int_float_def floor_eq_iff)

lemma linux_host_elapsed: "int_float (time_time linux_host - 1699999990) = 10"
  by (simp add: linux_host_def int_float_def floor_eq_iff)

lemma int_float_truncates: "int_float (7 / 2) = 3" "int_float (- 3 / 2) = - 1"
  by (simp_all add: int_float_def floor_eq_iff ceiling_eq_iff)

lemma status_body:
  "status g h =
     (JObject [(''status'', JString ''running''),
               (''hostname'', JString (platform_node h)),
               (''os'', JString (platform_system h)),
               (''os_version'', JString (platform_version h)),
               (''port'', JNumber (LISTEN_PORT g)),
               (''uptime'', JNumber (int_float (time_time h)))], 200)"
  by (simp add: status_def jsonify_def)

lemma int_float_bounds:
  "0 \<le> x \<Longrightarrow> of_int (int_float x) \<le> x \<and> x < of_int (int_float x) + 1"
  by (simp add: int_float_def) linarith

lemma int_float_elapsed:
  assumes "1 \<le> t0" and "t0 \<le> x"
  shows "int_float (x - t0) < int_float x"
proof -
  have "\<lfloor>x - t0\<rfloor> \<le> \<lfloor>x - 1\<rfloor>" using assms by (intro floor_mono) simp
  also have "\<dots> < \<lfloor>x\<rfloor>" by simp
  finally show ?thesis using assms by (simp add: int_float_def)
qed

lemma sleep_try_world: "fst (sleep_try h w1) = fst (sleep_try h w2)"
  by (auto simp: sleep_try_def Let_def Popen_def split: if_splits option.splits)

lemma sleep_computer_world: "fst (sleep_computer h w1) = fst (sleep_computer h w2)"
  using sleep_try_world [of h "enter ''sleep_computer'' w1" "enter ''sleep_computer'' w2"]
  by (auto simp: sleep_computer_def split: prod.splits sum.splits)

lemma route_sleep_same_host:
  assumes "remote_addr r1 = remote_addr r2"
      and "args_get (args r1) ''token'' [] = args_get (args r2) ''token'' []"
  shows "fst (route_sleep P g h r1 w1) = fst (route_sleep P g h r2 w2)"
proof -
  have "fst (route_sleep P g h r1 w1) = fst (route_sleep P g h r1 w2)"
    using sleep_computer_world [of h w1 w2]
    by (auto simp: route_sleep_def Let_def split: sum.splits bool.splits prod.splits)
  also have "\<dots> = fst (route_sleep P g h r2 w2)"
    using assms by (simp add: route_sleep_def Let_def split: sum.splits bool.splits)
  finally show ?thesis .
qed

lemma route_sleep_gate_failure:
  assumes "remote_addr r1 = remote_addr r2"
      and "args_get (args r1) ''token'' [] = args_get (args r2) ''token'' []"
      and "authorized_client P g (remote_addr r1) \<noteq> Inr True \<or>
           \<not> check_token g (args_get (args r1) ''token'' [])"
  shows "fst (route_sleep P g h1 r1 w1) = fst (route_sleep P g h2 r2 w2)"
  using assms by (auto simp: route_sleep_def Let_def split: sum.splits bool.splits)

lemma shutdown_try_world: "fst (shutdown_try h w1) = fst (shutdown_try h w2)"
  by (auto simp: shutdown_try_def Let_def Popen_def split: if_splits option.splits)

lemma shutdown_computer_world: "fst (shutdown_computer h w1) = fst (shutdown_computer h w2)"
  using shutdown_try_world [of h "enter ''shutdown_computer'' w1" "enter ''shutdown_computer'' w2"]
  by (auto simp: shutdown_computer_def split: prod.splits sum.splits)

lemma route_shutdown_same_host:
  assumes "remote_addr r1 = remote_addr r2"
      and "args_get (args r1) ''token'' [] = args_get (args r2) ''token'' []"
  shows "fst (route_shutdown P g h r1 w1) = fst (route_shutdown P g h r2 w2)"
proof -
  have "fst (route_shutdown P g h r1 w1) = fst (route_shutdown P g h r1 w2)"
    using shutdown_computer_world [of h w1 w2]
    by (auto simp: route_shutdown_def Let_def split: sum.splits bool.splits prod.splits)
  also have "\<dots> = fst (route_shutdown P g h r2 w2)"
    using assms by (simp add: route_shutdown_def Let_def split: sum.splits bool.splits)
  finally show ?thesis .
qed

lemma route_shutdown_gate_failure:
  assumes "remote_addr r1 = remote_addr r2"
      and "args_get (args r1) ''token'' [] = args_get (args r2) ''token'' []"
      and "authorized_client P g (remote_addr r1) \<noteq> Inr True \<or>
           \<not> check_token g (args_get (args r1) ''token'' [])"
  shows "fst (route_shutdown P g h1 r1 w1) = fst (route_shutdown P g h2 r2 w2)"
  using assms by (auto simp: route_shutdown_def Let_def split: sum.splits bool.splits)

lemma restart_try_world: "fst (restart_try h w1) = fst (restart_try h w2)"
  by (auto simp: restart_try_def Let_def Popen_def split: if_splits option.splits)

lemma restart_computer_world: "fst (restart_computer h w1) = fst (restart_computer h w2)"
  using restart_try_world [of h "enter ''restart_computer'' w1" "enter ''restart_computer'' w2"]
  by (auto simp: restart_computer_def split: prod.splits sum.splits)

lemma route_restart_same_host:
  assumes "remote_addr r1 = remote_addr r2"
      and "args_get (args r1) ''token'' [] = args_get (args r2) ''token'' []"
  shows "fst (route_restart P g h r1 w1) = fst (route_restart P g h r2 w2)"
proof -
  have "fst (route_restart P g h r1 w1) = fst (route_restart P g h r1 w2)"
    using restart_computer_world [of h w1 w2]
    by (auto simp: route_restart_def Let_def split: sum.splits bool.splits prod.splits)
  also have "\<dots> = fst (route_restart P g h r2 w2)"
    using assms by (simp add: route_restart_def Let_def split: sum.splits bool.splits)
  finally show ?thesis .
qed

lemma route_restart_gate_failure:
  assumes "remote_addr r1 = remote_addr r2"
      and "args_get (args r1) ''token'' [] = args_get (args r2) ''token'' []"
      and "authorized_client P g (remote_addr r1) \<noteq> Inr True \<or>
           \<not> check_token g (args_get (args r1) ''token'' [])"
  shows "fst (route_restart P g h1 r1 w1) = fst (route_restart P g h2 r2 w2)"
  using assms by (auto simp: route_restart_def Let_def split: sum.splits bool.splits)

lemma init_globals_allowed:
  "init_globals P CFG = Inr g \<Longrightarrow> init_HOST_CFG CFG = Inr HOST_CFG \<Longrightarrow>
   init_ALLOWED_IPS P HOST_CFG = Inr (ALLOWED_IPS g)"
  by (auto simp: init_globals_def split: sum.splits)

lemma init_ALLOWED_IPS_falsy:
  "map_of kvs (YStr ''allowed_ips'') = Some v \<Longrightarrow> \<not> py_bool P v \<Longrightarrow>
   init_ALLOWED_IPS P (YMap kvs) = Inr (YSeq [])"
  by (simp add: init_ALLOWED_IPS_def)

lemma init_ALLOWED_IPS_absent:
  "map_of kvs (YStr ''allowed_ips'') = None \<Longrightarrow> init_ALLOWED_IPS P (YMap kvs) = Inr (YSeq [])"
  by (simp add: init_ALLOWED_IPS_def)

lemma authorized_client_empty: "ALLOWED_IPS g = YSeq [] \<Longrightarrow> authorized_client P g ip = Inr True"
  by (simp add: authorized_client_def)

lemma str_int_123: "str_int 123 = ''123''"
  by (simp add: str_int_def digits10.simps)

lemma init_globals_check_token:
  "init_globals P CFG = Inr g \<Longrightarrow> init_SECRET_TOKEN P CFG = Inr s \<Longrightarrow>
   check_token g tok \<longleftrightarrow> s \<noteq> [] \<and> tok = s"
  by (auto simp: init_globals_def check_token_def split: sum.splits)

section \<open>Verified properties\<close>

text \<open>
  C1. For a privileged request (to \<open>/sleep\<close>, \<open>/shutdown\<close> or \<open>/restart\<close>) whose caller IP
  passes the IP gate, the answer is HTTP 401 with \<open>{status: "error", message: "Unauthorized"}\<close>,
  and nothing is dispatched, exactly when it is not the case that the configured secret is
  non-empty and the \<open>token\<close> query parameter equals it character for character. The
  comparison is plain equality of strings: no case folding, no trimming.
\<close>

theorem token_gate:
  assumes "path \<in> {''/sleep'', ''/shutdown'', ''/restart''}"
      and "authorized_client P g (remote_addr req) = Inr True"
  shows "app P g h path req w =
           Some (Inr (jsonify [(''status'', JString ''error''),
                               (''message'', JString ''Unauthorized'')], 401), w)
         \<longleftrightarrow> \<not> (SECRET_TOKEN g \<noteq> [] \<and> args_get (args req) ''token'' [] = SECRET_TOKEN g)"
proof (cases "check_token g (args_get (args req) ''token'' [])")
  case False
  then have "\<not> (SECRET_TOKEN g \<noteq> [] \<and> args_get (args req) ''token'' [] = SECRET_TOKEN g)"
    by (simp add: check_token_def)
  moreover have "app P g h path req w =
           Some (Inr (jsonify [(''status'', JString ''error''),
                               (''message'', JString ''Unauthorized'')], 401), w)"
    using assms(1) route_sleep_unauthorized [OF assms(2) False]
      route_shutdown_unauthorized [OF assms(2) False]
      route_restart_unauthorized [OF assms(2) False]
    by (auto simp: app_privileged)
  ultimately show ?thesis by simp
next
  case True
  then have pass: "SECRET_TOKEN g \<noteq> [] \<and> args_get (args req) ''token'' [] = SECRET_TOKEN g"
    by (simp add: check_token_def)
  have "app P g h path req w \<noteq>
           Some (Inr (jsonify [(''status'', JString ''error''),
                               (''message'', JString ''Unauthorized'')], 401), w)"
    using assms(1) route_sleep_pass [OF assms(2) True, of h w]
      route_shutdown_pass [OF assms(2) True, of h w]
      route_restart_pass [OF assms(2) True, of h w]
    by (auto simp: app_privileged split: if_splits)
  with pass show ?thesis by simp
qed

text \<open>The token \<open>abc123\<close> against the secret \<open>abc123\<close> followed by a space is refused.\<close>

theorem token_gate_witness:
  "app plain_builtins \<lparr>SECRET_TOKEN = ''abc123 '', LISTEN_PORT = 8888, ALLOWED_IPS = YSeq []\<rparr>
     linux_host ''/sleep'' \<lparr>remote_addr = ''192.168.1.7'', args = [(''token'', ''abc123'')]\<rparr>
     fresh_world =
   Some (Inr (jsonify [(''status'', JString ''error''),
                       (''message'', JString ''Unauthorized'')], 401), fresh_world)"
  using token_gate [of "''/sleep''" plain_builtins
      "\<lparr>SECRET_TOKEN = ''abc123 '', LISTEN_PORT = 8888, ALLOWED_IPS = YSeq []\<rparr>"
      "\<lparr>remote_addr = ''192.168.1.7'', args = [(''token'', ''abc123'')]\<rparr>" linux_host fresh_world]
  by (simp add: authorized_client_def args_get_def)

text \<open>
  C2. A privileged request from a caller IP that is not an element of a non-empty
  allowlist is answered with HTTP 403 and \<open>{status: "error", message: "Forbidden: IP not
  allowed"}\<close>, whatever its token, and nothing is dispatched. With an empty allowlist every
  caller IP passes the IP gate.
\<close>

theorem ip_gate:
  "(path \<in> {''/sleep'', ''/shutdown'', ''/restart''} \<and>
    ALLOWED_IPS g = YSeq xs \<and> xs \<noteq> [] \<and> YStr (remote_addr req) \<notin> set xs \<longrightarrow>
      app P g h path req w =
        Some (Inr (jsonify [(''status'', JString ''error''),
                            (''message'', JString ''Forbidden: IP not allowed'')], 403), w)) \<and>
   (ALLOWED_IPS g = YSeq [] \<longrightarrow> authorized_client P g ip = Inr True)"
proof (intro conjI impI)
  assume a: "path \<in> {''/sleep'', ''/shutdown'', ''/restart''} \<and>
    ALLOWED_IPS g = YSeq xs \<and> xs \<noteq> [] \<and> YStr (remote_addr req) \<notin> set xs"
  then have deny: "authorized_client P g (remote_addr req) = Inr False"
    by (simp add: authorized_client_list)
  from a show "app P g h path req w =
        Some (Inr (jsonify [(''status'', JString ''error''),
                            (''message'', JString ''Forbidden: IP not allowed'')], 403), w)"
    using route_sleep_forbidden [OF deny] route_shutdown_forbidden [OF deny]
      route_restart_forbidden [OF deny]
    by (auto simp: app_privileged)
next
  assume "ALLOWED_IPS g = YSeq []"
  then show "authorized_client P g ip = Inr True"
    by (simp add: authorized_client_list)
qed

text \<open>A request with the right token from an IP outside the allowlist is refused with 403.\<close>

theorem ip_gate_witness:
  "app plain_builtins
     \<lparr>SECRET_TOKEN = ''s3cret'', LISTEN_PORT = 8888, ALLOWED_IPS = YSeq [YStr ''192.168.1.50'']\<rparr>
     linux_host ''/shutdown'' \<lparr>remote_addr = ''10.0.0.9'', args = [(''token'', ''s3cret'')]\<rparr>
     fresh_world =
     Some (Inr (jsonify [(''status'', JString ''error''),
                         (''message'', JString ''Forbidden: IP not allowed'')], 403), fresh_world) \<and>
   check_token
     \<lparr>SECRET_TOKEN = ''s3cret'', LISTEN_PORT = 8888, ALLOWED_IPS = YSeq [YStr ''192.168.1.50'']\<rparr>
     (args_get [(''token'', ''s3cret'')] ''token'' []) \<and>
   authorized_client plain_builtins
     \<lparr>SECRET_TOKEN = ''s3cret'', LISTEN_PORT = 8888, ALLOWED_IPS = YSeq []\<rparr> ''10.0.0.9'' = Inr True"
  using ip_gate [where path = "''/shutdown''" and P = plain_builtins and h = linux_host
      and w = fresh_world and xs = "[YStr ''192.168.1.50'']"
      and g = "\<lparr>SECRET_TOKEN = ''s3cret'', LISTEN_PORT = 8888, ALLOWED_IPS = YSeq [YStr ''192.168.1.50'']\<rparr>"
      and req = "\<lparr>remote_addr = ''10.0.0.9'', args = [(''token'', ''s3cret'')]\<rparr>"]
    ip_gate [where P = plain_builtins and ip = "''10.0.0.9''"
      and g = "\<lparr>SECRET_TOKEN = ''s3cret'', LISTEN_PORT = 8888, ALLOWED_IPS = YSeq []\<rparr>"]
  by (simp add: check_token_def args_get_def)

text \<open>
  C3. A privileged request that passes the IP gate and whose token equals the non-empty
  secret runs the dispatcher of its route exactly once: the effects are those of one run of
  the dispatcher from the state before the request, one entry is added to the trace of
  calls, and one child process is started when the dispatcher reports success and none
  otherwise. The answer is HTTP 200 with \<open>{status: "success"}\<close> when the dispatcher reports
  success, which it does exactly when the OS is recognized and the launch did not raise, and
  HTTP 500 with \<open>{status: "error"}\<close> otherwise.
\<close>

theorem dispatch_once:
  assumes "authorized_client P g (remote_addr req) = Inr True"
      and "check_token g (args_get (args req) ''token'' [])"
  shows "(\<exists>ok w'. sleep_computer h w = (Inr ok, w') \<and>
            app P g h ''/sleep'' req w =
              Some (Inr (if ok then (jsonify [(''status'', JString ''success'')], 200)
                         else (jsonify [(''status'', JString ''error'')], 500)), w') \<and>
            calls w' = calls w @ [''sleep_computer''] \<and>
            length (spawned w') = length (spawned w) + (if ok then 1 else 0) \<and>
            ok = (platform_system h \<in> {''Windows'', ''Linux'', ''Darwin''} \<and>
                  (\<forall>e. fst (sleep_try h (enter ''sleep_computer'' w)) \<noteq> Inl e))) \<and>
         (\<exists>ok w'. shutdown_computer h w = (Inr ok, w') \<and>
            app P g h ''/shutdown'' req w =
              Some (Inr (if ok then (jsonify [(''status'', JString ''success'')], 200)
                         else (jsonify [(''status'', JString ''error'')], 500)), w') \<and>
            calls w' = calls w @ [''shutdown_computer''] \<and>
            length (spawned w') = length (spawned w) + (if ok then 1 else 0) \<and>
            ok = (platform_system h \<in> {''Windows'', ''Linux'', ''Darwin''} \<and>
                  (\<forall>e. fst (shutdown_try h (enter ''shutdown_computer'' w)) \<noteq> Inl e))) \<and>
         (\<exists>ok w'. restart_computer h w = (Inr ok, w') \<and>
            app P g h ''/restart'' req w =
              Some (Inr (if ok then (jsonify [(''status'', JString ''success'')], 200)
                         else (jsonify [(''status'', JString ''error'')], 500)), w') \<and>
            calls w' = calls w @ [''restart_computer''] \<and>
            length (spawned w') = length (spawned w) + (if ok then 1 else 0) \<and>
            ok = (platform_system h \<in> {''Windows'', ''Linux'', ''Darwin''} \<and>
                  (\<forall>e. fst (restart_try h (enter ''restart_computer'' w)) \<noteq> Inl e)))"
proof (intro conjI)
  show "\<exists>ok w'. sleep_computer h w = (Inr ok, w') \<and>
            app P g h ''/sleep'' req w =
              Some (Inr (if ok then (jsonify [(''status'', JString ''success'')], 200)
                         else (jsonify [(''status'', JString ''error'')], 500)), w') \<and>
            calls w' = calls w @ [''sleep_computer''] \<and>
            length (spawned w') = length (spawned w) + (if ok then 1 else 0) \<and>
            ok = (platform_system h \<in> {''Windows'', ''Linux'', ''Darwin''} \<and>
                  (\<forall>e. fst (sleep_try h (enter ''sleep_computer'' w)) \<noteq> Inl e))"
  proof -
    obtain ok w' where run: "sleep_computer h w = (Inr ok, w')"
      and rest: "calls w' = calls w @ [''sleep_computer'']"
        "length (spawned w') = length (spawned w) + (if ok then 1 else 0)"
        "ok = (platform_system h \<in> {''Windows'', ''Linux'', ''Darwin''} \<and>
               (\<forall>e. fst (sleep_try h (enter ''sleep_computer'' w)) \<noteq> Inl e))"
      using sleep_computer_run [of h w] by blast
    have "app P g h ''/sleep'' req w =
            Some (Inr (if ok then (jsonify [(''status'', JString ''success'')], 200)
                       else (jsonify [(''status'', JString ''error'')], 500)), w')"
      using route_sleep_dispatch [OF assms run] by (simp add: app_privileged)
    with run rest show ?thesis by blast
  qed
  show "\<exists>ok w'. shutdown_computer h w = (Inr ok, w') \<and>
            app P g h ''/shutdown'' req w =
              Some (Inr (if ok then (jsonify [(''status'', JString ''success'')], 200)
                         else (jsonify [(''status'', JString ''error'')], 500)), w') \<and>
            calls w' = calls w @ [''shutdown_computer''] \<and>
            length (spawned w') = length (spawned w) + (if ok then 1 else 0) \<and>
            ok = (platform_system h \<in> {''Windows'', ''Linux'', ''Darwin''} \<and>
                  (\<forall>e. fst (shutdown_try h (enter ''shutdown_computer'' w)) \<noteq> Inl e))"
  proof -
    obtain ok w' where run: "shutdown_computer h w = (Inr ok, w')"
      and rest: "calls w' = calls w @ [''shutdown_computer'']"
        "length (spawned w') = length (spawned w) + (if ok then 1 else 0)"
        "ok = (platform_system h \<in> {''Windows'', ''Linux'', ''Darwin''} \<and>
               (\<forall>e. fst (shutdown_try h (enter ''shutdown_computer'' w)) \<noteq> Inl e))"
      using shutdown_computer_run [of h w] by blast
    have "app P g h ''/shutdown'' req w =
            Some (Inr (if ok then (jsonify [(''status'', JString ''success'')], 200)
                       else (jsonify [(''status'', JString ''error'')], 500)), w')"
      using route_shutdown_dispatch [OF assms run] by (simp add: app_privileged)
    with run rest show ?thesis by blast
  qed
  show "\<exists>ok w'. restart_computer h w = (Inr ok, w') \<and>
            app P g h ''/restart'' req w =
              Some (Inr (if ok then (jsonify [(''status'', JString ''success'')], 200)
                         else (jsonify [(''status'', JString ''error'')], 500)), w') \<and>
            calls w' = calls w @ [''restart_computer''] \<and>
            length (spawned w') = length (spawned w) + (if ok then 1 else 0) \<and>
            ok = (platform_system h \<in> {''Windows'', ''Linux'', ''Darwin''} \<and>
                  (\<forall>e. fst (restart_try h (enter ''restart_computer'' w)) \<noteq> Inl e))"
  proof -
    obtain ok w' where run: "restart_computer h w = (Inr ok, w')"
      and rest: "calls w' = calls w @ [''restart_computer'']"
        "length (spawned w') = length (spawned w) + (if ok then 1 else 0)"
        "ok = (platform_system h \<in> {''Windows'', ''Linux'', ''Darwin''} \<and>
               (\<forall>e. fst (restart_try h (enter ''restart_computer'' w)) \<noteq> Inl e))"
      using restart_computer_run [of h w] by blast
    have "app P g h ''/restart'' req w =
            Some (Inr (if ok then (jsonify [(''status'', JString ''success'')], 200)
                       else (jsonify [(''status'', JString ''error'')], 500)), w')"
      using route_restart_dispatch [OF assms run] by (simp add: app_privileged)
    with run rest show ?thesis by blast
  qed
qed

theorem dispatch_once_witness:
  "authorized_client plain_builtins
     \<lparr>SECRET_TOKEN = ''s3cret'', LISTEN_PORT = 8888, ALLOWED_IPS = YSeq [YStr ''192.168.1.50'']\<rparr>
     (remote_addr \<lparr>remote_addr = ''192.168.1.50'', args = [(''token'', ''s3cret'')]\<rparr>) = Inr True \<and>
   check_token
     \<lparr>SECRET_TOKEN = ''s3cret'', LISTEN_PORT = 8888, ALLOWED_IPS = YSeq [YStr ''192.168.1.50'']\<rparr>
     (args_get (args \<lparr>remote_addr = ''192.168.1.50'', args = [(''token'', ''s3cret'')]\<rparr>) ''token'' []) \<and>
   app plain_builtins
     \<lparr>SECRET_TOKEN = ''s3cret'', LISTEN_PORT = 8888, ALLOWED_IPS = YSeq [YStr ''192.168.1.50'']\<rparr>
     linux_host ''/sleep'' \<lparr>remote_addr = ''192.168.1.50'', args = [(''token'', ''s3cret'')]\<rparr>
     fresh_world =
     Some (Inr (jsonify [(''status'', JString ''success'')], 200),
           \<lparr>calls = [''sleep_computer''], spawned = [[''systemctl'', ''suspend'']],
              error_log = []\<rparr>)"
proof -
  have a: "authorized_client plain_builtins
     \<lparr>SECRET_TOKEN = ''s3cret'', LISTEN_PORT = 8888, ALLOWED_IPS = YSeq [YStr ''192.168.1.50'']\<rparr>
     (remote_addr \<lparr>remote_addr = ''192.168.1.50'', args = [(''token'', ''s3cret'')]\<rparr>) = Inr True"
    by (simp add: authorized_client_def)
  have c: "check_token
     \<lparr>SECRET_TOKEN = ''s3cret'', LISTEN_PORT = 8888, ALLOWED_IPS = YSeq [YStr ''192.168.1.50'']\<rparr>
     (args_get (args \<lparr>remote_addr = ''192.168.1.50'', args = [(''token'', ''s3cret'')]\<rparr>) ''token'' [])"
    by (simp add: check_token_def args_get_def)
  have run: "sleep_computer linux_host fresh_world =
      (Inr True, \<lparr>calls = [''sleep_computer''], spawned = [[''systemctl'', ''suspend'']],
              error_log = []\<rparr>)"
    by (simp add: sleep_computer_def sleep_try_def Popen_def enter_def linux_host_def
        fresh_world_def)
  from dispatch_once [OF a c, of linux_host fresh_world] run
  have "app plain_builtins
     \<lparr>SECRET_TOKEN = ''s3cret'', LISTEN_PORT = 8888, ALLOWED_IPS = YSeq [YStr ''192.168.1.50'']\<rparr>
     linux_host ''/sleep'' \<lparr>remote_addr = ''192.168.1.50'', args = [(''token'', ''s3cret'')]\<rparr>
     fresh_world =
     Some (Inr (jsonify [(''status'', JString ''success'')], 200),
           \<lparr>calls = [''sleep_computer''], spawned = [[''systemctl'', ''suspend'']],
              error_log = []\<rparr>)"
    by auto
  with a c show ?thesis by blast
qed

text \<open>
  C4. Each of \<open>sleep_computer\<close>, \<open>shutdown_computer\<close> and \<open>restart_computer\<close> always returns a
  boolean and never raises. The boolean is true exactly when the OS family is one of
  Windows, Linux and Darwin and no statement of the \<open>try\<close> block raised. On another OS
  family it is false and nothing is logged. When the launch raised \<open>e\<close>, which happens
  exactly when \<open>subprocess.Popen\<close> raised \<open>e\<close> on the command of the OS family, it is false
  and one line with the text of \<open>e\<close> is given to \<open>logger.error\<close>. A request that passed
  both gates and whose dispatcher returned false is answered with HTTP 500 and
  \<open>{status: "error"}\<close>.
\<close>

theorem dispatcher_result:
  "((\<exists>b. fst (sleep_computer h w) = Inr b) \<and>
   (fst (sleep_computer h w) = Inr True \<longleftrightarrow>
      platform_system h \<in> {''Windows'', ''Linux'', ''Darwin''} \<and>
      (\<forall>e. fst (sleep_try h (enter ''sleep_computer'' w)) \<noteq> Inl e)) \<and>
   (platform_system h \<notin> {''Windows'', ''Linux'', ''Darwin''} \<longrightarrow>
      sleep_computer h w = (Inr False, enter ''sleep_computer'' w)) \<and>
   (\<forall>e. fst (sleep_try h (enter ''sleep_computer'' w)) = Inl e \<longrightarrow>
      sleep_computer h w =
        (Inr False, logger_error (''sleep failed: '' @ str_exc e) (enter ''sleep_computer'' w))) \<and>
   (\<forall>e. fst (sleep_try h (enter ''sleep_computer'' w)) = Inl e \<longleftrightarrow>
      (platform_system h = ''Windows'' \<and> popen_raises h [''powershell'', ''-NoProfile'', ''-Command'', ps_cmd] = Some e \<or>
       platform_system h = ''Linux'' \<and> popen_raises h [''systemctl'', ''suspend''] = Some e \<or>
       platform_system h = ''Darwin'' \<and> popen_raises h [''pmset'', ''sleepnow''] = Some e)) \<and>
   (\<forall>w'. authorized_client P g (remote_addr req) = Inr True \<and>
      check_token g (args_get (args req) ''token'' []) \<and>
      sleep_computer h w = (Inr False, w') \<longrightarrow>
      app P g h ''/sleep'' req w = Some (Inr (jsonify [(''status'', JString ''error'')], 500), w'))) \<and>
  ((\<exists>b. fst (shutdown_computer h w) = Inr b) \<and>
   (fst (shutdown_computer h w) = Inr True \<longleftrightarrow>
      platform_system h \<in> {''Windows'', ''Linux'', ''Darwin''} \<and>
      (\<forall>e. fst (shutdown_try h (enter ''shutdown_computer'' w)) \<noteq> Inl e)) \<and>
   (platform_system h \<notin> {''Windows'', ''Linux'', ''Darwin''} \<longrightarrow>
      shutdown_computer h w = (Inr False, enter ''shutdown_computer'' w)) \<and>
   (\<forall>e. fst (shutdown_try h (enter ''shutdown_computer'' w)) = Inl e \<longrightarrow>
      shutdown_computer h w =
        (Inr False, logger_error (''shutdown failed: '' @ str_exc e) (enter ''shutdown_computer'' w))) \<and>
   (\<forall>e. fst (shutdown_try h (enter ''shutdown_computer'' w)) = Inl e \<longleftrightarrow>
      (platform_system h = ''Windows'' \<and> popen_raises h [''shutdown'', ''/s'', ''/t'', ''0''] = Some e \<or>
       platform_system h = ''Linux'' \<and> popen_raises h [''systemctl'', ''poweroff''] = Some e \<or>
       platform_system h = ''Darwin'' \<and> popen_raises h [''sudo'', ''shutdown'', ''-h'', ''now''] = Some e)) \<and>
   (\<forall>w'. authorized_client P g (remote_addr req) = Inr True \<and>
      check_token g (args_get (args req) ''token'' []) \<and>
      shutdown_computer h w = (Inr False, w') \<longrightarrow>
      app P g h ''/shutdown'' req w = Some (Inr (jsonify [(''status'', JString ''error'')], 500), w'))) \<and>
  ((\<exists>b. fst (restart_computer h w) = Inr b) \<and>
   (fst (restart_computer h w) = Inr True \<longleftrightarrow>
      platform_system h \<in> {''Windows'', ''Linux'', ''Darwin''} \<and>
      (\<forall>e. fst (restart_try h (enter ''restart_computer'' w)) \<noteq> Inl e)) \<and>
   (platform_system h \<notin> {''Windows'', ''Linux'', ''Darwin''} \<longrightarrow>
      restart_computer h w = (Inr False, enter ''restart_computer'' w)) \<and>
   (\<forall>e. fst (restart_try h (enter ''restart_computer'' w)) = Inl e \<longrightarrow>
      restart_computer h w =
        (Inr False, logger_error (''restart failed: '' @ str_exc e) (enter ''restart_computer'' w))) \<and>
   (\<forall>e. fst (restart_try h (enter ''restart_computer'' w)) = Inl e \<longleftrightarrow>
      (platform_system h = ''Windows'' \<and> popen_raises h [''shutdown'', ''/r'', ''/t'', ''0''] = Some e \<or>
       platform_system h = ''Linux'' \<and> popen_raises h [''systemctl'', ''reboot''] = Some e \<or>
       platform_system h = ''Darwin'' \<and> popen_raises h [''sudo'', ''shutdown'', ''-r'', ''now''] = Some e)) \<and>
   (\<forall>w'. authorized_client P g (remote_addr req) = Inr True \<and>
      check_token g (args_get (args req) ''token'' []) \<and>
      restart_computer h w = (Inr False, w') \<longrightarrow>
      app P g h ''/restart'' req w = Some (Inr (jsonify [(''status'', JString ''error'')], 500), w')))"
  by (intro conjI sleep_computer_spec shutdown_computer_spec restart_computer_spec)

text \<open>On a host where the launch raises, \<open>/restart\<close> logs the error and answers 500.\<close>

theorem dispatcher_result_witness:
  "fst (restart_try broken_host (enter ''restart_computer'' fresh_world)) =
     Inl (OSError ''No such file or directory'') \<and>
   restart_computer broken_host fresh_world =
     (Inr False, \<lparr>calls = [''restart_computer''], spawned = [],
        error_log = [''restart failed: No such file or directory'']\<rparr>) \<and>
   app plain_builtins \<lparr>SECRET_TOKEN = ''s3cret'', LISTEN_PORT = 8888, ALLOWED_IPS = YSeq []\<rparr> broken_host ''/restart''
     \<lparr>remote_addr = ''192.168.1.50'', args = [(''token'', ''s3cret'')]\<rparr> fresh_world =
     Some (Inr (jsonify [(''status'', JString ''error'')], 500), \<lparr>calls = [''restart_computer''], spawned = [],
        error_log = [''restart failed: No such file or directory'']\<rparr>)"
proof -
  have raised: "fst (restart_try broken_host (enter ''restart_computer'' fresh_world)) =
     Inl (OSError ''No such file or directory'')"
    by (simp add: restart_try_def Popen_def broken_host_def linux_host_def)
  have a: "authorized_client plain_builtins \<lparr>SECRET_TOKEN = ''s3cret'', LISTEN_PORT = 8888, ALLOWED_IPS = YSeq []\<rparr>
     (remote_addr \<lparr>remote_addr = ''192.168.1.50'', args = [(''token'', ''s3cret'')]\<rparr>) = Inr True"
    by (simp add: authorized_client_def)
  have c: "check_token \<lparr>SECRET_TOKEN = ''s3cret'', LISTEN_PORT = 8888, ALLOWED_IPS = YSeq []\<rparr>
     (args_get (args \<lparr>remote_addr = ''192.168.1.50'', args = [(''token'', ''s3cret'')]\<rparr>) ''token'' [])"
    by (simp add: check_token_def args_get_def)
  note spec = dispatcher_result [of broken_host fresh_world plain_builtins
      "\<lparr>SECRET_TOKEN = ''s3cret'', LISTEN_PORT = 8888, ALLOWED_IPS = YSeq []\<rparr>" "\<lparr>remote_addr = ''192.168.1.50'', args = [(''token'', ''s3cret'')]\<rparr>"]
  note restart_spec = spec [THEN conjunct2, THEN conjunct2]
  note logged = restart_spec [THEN conjunct2, THEN conjunct2, THEN conjunct2, THEN conjunct1]
  note failed = restart_spec [THEN conjunct2, THEN conjunct2, THEN conjunct2, THEN conjunct2,
      THEN conjunct2]
  from logged [rule_format, OF raised]
  have "restart_computer broken_host fresh_world =
     (Inr False, logger_error (''restart failed: '' @ str_exc (OSError ''No such file or directory''))
        (enter ''restart_computer'' fresh_world))"
    by simp
  then have run: "restart_computer broken_host fresh_world = (Inr False, \<lparr>calls = [''restart_computer''], spawned = [],
        error_log = [''restart failed: No such file or directory'']\<rparr>)"
    by (simp add: logger_error_def enter_def fresh_world_def)
  from failed [rule_format, OF conjI [OF a conjI [OF c run]]]
  have "app plain_builtins \<lparr>SECRET_TOKEN = ''s3cret'', LISTEN_PORT = 8888, ALLOWED_IPS = YSeq []\<rparr> broken_host ''/restart''
     \<lparr>remote_addr = ''192.168.1.50'', args = [(''token'', ''s3cret'')]\<rparr> fresh_world =
     Some (Inr (jsonify [(''status'', JString ''error'')], 500), \<lparr>calls = [''restart_computer''], spawned = [],
        error_log = [''restart failed: No such file or directory'']\<rparr>)"
    by simp
  with raised run show ?thesis by blast
qed

text \<open>
  C5. Run as a script, the program stops with exit status 1 when the configuration file is
  absent, and stops with a non-zero exit status when the secret read from the file is the
  empty string; in both cases \<open>app.run\<close> is not reached. Whenever \<open>app.run\<close> is reached,
  the file was present, the globals are those computed from it, and the secret is not
  empty. Every way of stopping before \<open>app.run\<close> has a non-zero exit status.
\<close>

theorem startup_exit:
  "run_script P None = Inl (SysExit 1) \<and>
   (init_SECRET_TOKEN P CFG = Inr [] \<longrightarrow>
      (\<exists>hlt. run_script P (Some (Inr CFG)) = Inl hlt \<and> exit_code hlt \<noteq> 0)) \<and>
   (\<forall>hlt. run_script P cfg_file = Inl hlt \<longrightarrow> exit_code hlt \<noteq> 0) \<and>
   (\<forall>g. run_script P cfg_file = Inr g \<longrightarrow>
      (\<exists>CFG. cfg_file = Some (Inr CFG) \<and> init_globals P CFG = Inr g) \<and> SECRET_TOKEN g \<noteq> [])"
  using run_script_absent run_script_empty_secret run_script_halt run_script_serving
  by (intro conjI allI impI) blast+

text \<open>
  A file whose \<open>esp.token\<close> is the empty string ends the process with status 1; a file
  with a token is served.
\<close>

theorem startup_exit_witness:
  "init_SECRET_TOKEN plain_builtins (YMap [(YStr ''esp'', YMap [(YStr ''token'', YStr [])])]) = Inr [] \<and>
   run_script plain_builtins (Some (Inr (YMap [(YStr ''esp'', YMap [(YStr ''token'', YStr [])])]))) =
     Inl (SysExit 1) \<and>
   exit_code (SysExit 1) \<noteq> 0 \<and>
   run_script plain_builtins
     (Some (Inr (YMap [(YStr ''esp'', YMap [(YStr ''token'', YStr ''s3cret'')])]))) =
     Inr \<lparr>SECRET_TOKEN = ''s3cret'', LISTEN_PORT = 8888, ALLOWED_IPS = YSeq []\<rparr>"
  using startup_exit [of plain_builtins "YMap [(YStr ''esp'', YMap [(YStr ''token'', YStr [])])]"
      "Some (Inr (YMap [(YStr ''esp'', YMap [(YStr ''token'', YStr ''s3cret'')])]))"]
  by (simp add: run_script_def load_config_def init_globals_def init_SECRET_TOKEN_def
      init_HOST_CFG_def init_LISTEN_PORT_def init_ALLOWED_IPS_def main_def)




text \<open>
  C7. The \<open>uptime\<close> field is \<open>int(time.time())\<close>: the whole seconds of the current time since
  the epoch, the largest integer not above it. It is not the time elapsed since the
  process started: for a process started at least one second after the epoch and not
  after the request, the whole seconds elapsed since the start are a different number.
\<close>

theorem uptime_is_epoch:
  "json_field (fst (status g h)) ''uptime'' = Some (JNumber (int_float (time_time h))) \<and>
   (0 \<le> time_time h \<longrightarrow>
      of_int (int_float (time_time h)) \<le> time_time h \<and>
      time_time h < of_int (int_float (time_time h)) + 1) \<and>
   (1 \<le> started \<and> started \<le> time_time h \<longrightarrow>
      json_field (fst (status g h)) ''uptime'' \<noteq>
        Some (JNumber (int_float (time_time h - started))))"
  using int_float_bounds [of "time_time h"] int_float_elapsed [of started "time_time h"]
  by (auto simp: status_body)

text \<open>
  At time 1700000000.5 the field is 1700000000, while a process started at 1699999990 has
  been running for 10 whole seconds.
\<close>

theorem uptime_is_epoch_witness:
  "json_field (fst (status
      \<lparr>SECRET_TOKEN = ''s3cret'', LISTEN_PORT = 8888, ALLOWED_IPS = YSeq [] :: unit yaml\<rparr>
      linux_host)) ''uptime'' = Some (JNumber 1700000000) \<and>
   (0::rat) \<le> time_time linux_host \<and>
   (1::rat) \<le> 1699999990 \<and> 1699999990 \<le> time_time linux_host \<and>
   int_float (time_time linux_host - 1699999990) = 10 \<and>
   json_field (fst (status
      \<lparr>SECRET_TOKEN = ''s3cret'', LISTEN_PORT = 8888, ALLOWED_IPS = YSeq [] :: unit yaml\<rparr>
      linux_host)) ''uptime'' \<noteq> Some (JNumber 10)"
proof -
  note spec = uptime_is_epoch [of
      "\<lparr>SECRET_TOKEN = ''s3cret'', LISTEN_PORT = 8888, ALLOWED_IPS = YSeq [] :: unit yaml\<rparr>"
      linux_host 1699999990]
  have t: "(0::rat) \<le> time_time linux_host" "(1::rat) \<le> 1699999990"
    "1699999990 \<le> time_time linux_host"
    by (simp_all add: linux_host_fields(4))
  from spec [THEN conjunct1]
  have u: "json_field (fst (status
      \<lparr>SECRET_TOKEN = ''s3cret'', LISTEN_PORT = 8888, ALLOWED_IPS = YSeq [] :: unit yaml\<rparr>
      linux_host)) ''uptime'' = Some (JNumber 1700000000)"
    by (simp add: linux_host_uptime)
  from spec [THEN conjunct2, THEN conjunct2, rule_format, OF conjI [OF t(2) t(3)]]
  have "json_field (fst (status
      \<lparr>SECRET_TOKEN = ''s3cret'', LISTEN_PORT = 8888, ALLOWED_IPS = YSeq [] :: unit yaml\<rparr>
      linux_host)) ''uptime'' \<noteq> Some (JNumber 10)"
    by (simp add: linux_host_elapsed)
  with u t linux_host_elapsed show ?thesis by blast
qed

text \<open>
  C8. Under one configuration, two requests to the same privileged route with the same
  caller IP and the same supplied token get the same decision from the IP gate and from
  the token gate. When a gate refuses them they get the same answer, whatever the hosts
  and the states they are served in; on the same host (same platform, same outcome of the
  launch) they get the same answer in every case.
\<close>

theorem gate_deterministic:
  assumes "path \<in> {''/sleep'', ''/shutdown'', ''/restart''}"
      and "remote_addr r1 = remote_addr r2"
      and "args_get (args r1) ''token'' [] = args_get (args r2) ''token'' []"
  shows "authorized_client P g (remote_addr r1) = authorized_client P g (remote_addr r2) \<and>
         check_token g (args_get (args r1) ''token'' []) =
           check_token g (args_get (args r2) ''token'' []) \<and>
         (authorized_client P g (remote_addr r1) \<noteq> Inr True \<or>
          \<not> check_token g (args_get (args r1) ''token'' []) \<longrightarrow>
            map_option fst (app P g h1 path r1 w1) = map_option fst (app P g h2 path r2 w2)) \<and>
         map_option fst (app P g h path r1 w1) = map_option fst (app P g h path r2 w2)"
proof (intro conjI impI)
  show "authorized_client P g (remote_addr r1) = authorized_client P g (remote_addr r2)"
    using assms(2) by simp
  show "check_token g (args_get (args r1) ''token'' []) =
           check_token g (args_get (args r2) ''token'' [])"
    using assms(3) by simp
  show "map_option fst (app P g h1 path r1 w1) = map_option fst (app P g h2 path r2 w2)"
    if "authorized_client P g (remote_addr r1) \<noteq> Inr True \<or>
          \<not> check_token g (args_get (args r1) ''token'' [])"
    using assms(1) route_sleep_gate_failure [OF assms(2,3) that]
      route_shutdown_gate_failure [OF assms(2,3) that]
      route_restart_gate_failure [OF assms(2,3) that]
    by (auto simp: app_privileged)
  show "map_option fst (app P g h path r1 w1) = map_option fst (app P g h path r2 w2)"
    using assms(1) route_sleep_same_host [OF assms(2,3)]
      route_shutdown_same_host [OF assms(2,3)] route_restart_same_host [OF assms(2,3)]
    by (auto simp: app_privileged)
qed

text \<open>
  Two requests with a wrong token that differ in their other query parameters, served on
  different hosts in different states, both get 401.
\<close>

theorem gate_deterministic_witness:
  "map_option fst
     (app plain_builtins \<lparr>SECRET_TOKEN = ''s3cret'', LISTEN_PORT = 8888, ALLOWED_IPS = YSeq []\<rparr>
        linux_host ''/sleep''
        \<lparr>remote_addr = ''10.0.0.9'', args = [(''token'', ''guess'')]\<rparr> fresh_world) =
   map_option fst
     (app plain_builtins \<lparr>SECRET_TOKEN = ''s3cret'', LISTEN_PORT = 8888, ALLOWED_IPS = YSeq []\<rparr>
        broken_host ''/sleep''
        \<lparr>remote_addr = ''10.0.0.9'', args = [(''x'', ''1''), (''token'', ''guess''), (''token'', ''s3cret'')]\<rparr>
        (enter ''earlier'' fresh_world)) \<and>
   map_option fst
     (app plain_builtins \<lparr>SECRET_TOKEN = ''s3cret'', LISTEN_PORT = 8888, ALLOWED_IPS = YSeq []\<rparr>
        linux_host ''/sleep''
        \<lparr>remote_addr = ''10.0.0.9'', args = [(''token'', ''guess'')]\<rparr> fresh_world) =
   Some (Inr (jsonify [(''status'', JString ''error''),
                       (''message'', JString ''Unauthorized'')], 401))"
proof -
  have p: "''/sleep'' \<in> {''/sleep'', ''/shutdown'', ''/restart''}" by simp
  have ip: "remote_addr \<lparr>remote_addr = ''10.0.0.9'', args = [(''token'', ''guess'')]\<rparr> =
      remote_addr \<lparr>remote_addr = ''10.0.0.9'',
        args = [(''x'', ''1''), (''token'', ''guess''), (''token'', ''s3cret'')]\<rparr>"
    by simp
  have tok: "args_get (args \<lparr>remote_addr = ''10.0.0.9'', args = [(''token'', ''guess'')]\<rparr>)
        ''token'' [] =
      args_get (args \<lparr>remote_addr = ''10.0.0.9'',
        args = [(''x'', ''1''), (''token'', ''guess''), (''token'', ''s3cret'')]\<rparr>) ''token'' []"
    by (simp add: args_get_def)
  have bad: "authorized_client plain_builtins
        \<lparr>SECRET_TOKEN = ''s3cret'', LISTEN_PORT = 8888, ALLOWED_IPS = YSeq []\<rparr>
        (remote_addr \<lparr>remote_addr = ''10.0.0.9'', args = [(''token'', ''guess'')]\<rparr>) \<noteq> Inr True \<or>
      \<not> check_token \<lparr>SECRET_TOKEN = ''s3cret'', LISTEN_PORT = 8888, ALLOWED_IPS = YSeq []\<rparr>
        (args_get (args \<lparr>remote_addr = ''10.0.0.9'', args = [(''token'', ''guess'')]\<rparr>)
           ''token'' [])"
    by (simp add: check_token_def args_get_def)
  note spec = gate_deterministic [OF p ip tok, of plain_builtins
      "\<lparr>SECRET_TOKEN = ''s3cret'', LISTEN_PORT = 8888, ALLOWED_IPS = YSeq []\<rparr>"
      linux_host fresh_world broken_host "enter ''earlier'' fresh_world"]
  note same = spec [THEN conjunct2, THEN conjunct2, THEN conjunct1, rule_format, OF bad]
  have "map_option fst
     (app plain_builtins \<lparr>SECRET_TOKEN = ''s3cret'', LISTEN_PORT = 8888, ALLOWED_IPS = YSeq []\<rparr>
        linux_host ''/sleep''
        \<lparr>remote_addr = ''10.0.0.9'', args = [(''token'', ''guess'')]\<rparr> fresh_world) =
   Some (Inr (jsonify [(''status'', JString ''error''),
                       (''message'', JString ''Unauthorized'')], 401))"
    by (simp add: app_def route_sleep_def authorized_client_def check_token_def args_get_def)
  with same show ?thesis by simp
qed

text \<open>
  C9. When \<open>host.allowed_ips\<close> is present with a falsy value (\<open>null\<close>, \<open>false\<close>, \<open>0\<close>, the empty
  string, the empty sequence or the empty mapping, among others), \<open>ALLOWED_IPS\<close> is the
  empty list, the same as when the key is absent, and then every caller IP passes the IP
  gate.
\<close>

theorem falsy_allowlist:
  assumes "init_globals P CFG = Inr g"
      and "init_HOST_CFG CFG = Inr (YMap kvs)"
      and "map_of kvs (YStr ''allowed_ips'') = Some v"
      and "\<not> py_bool P v"
  shows "ALLOWED_IPS g = YSeq [] \<and>
         authorized_client P g ip = Inr True \<and>
         (\<forall>kvs'. map_of kvs' (YStr ''allowed_ips'') = None \<longrightarrow>
            init_ALLOWED_IPS P (YMap kvs') = init_ALLOWED_IPS P (YMap kvs)) \<and>
         \<not> py_bool P YNull \<and> \<not> py_bool P (YBool False) \<and> \<not> py_bool P (YInt 0) \<and>
         \<not> py_bool P (YStr []) \<and> \<not> py_bool P (YSeq []) \<and> \<not> py_bool P (YMap [])"
proof -
  have falsy: "init_ALLOWED_IPS P (YMap kvs) = Inr (YSeq [])"
    using assms(3,4) by (rule init_ALLOWED_IPS_falsy)
  with init_globals_allowed [OF assms(1,2)] have empty: "ALLOWED_IPS g = YSeq []"
    by simp
  then have "authorized_client P g ip = Inr True"
    by (rule authorized_client_empty)
  with empty falsy show ?thesis
    by (simp add: init_ALLOWED_IPS_absent)
qed

text \<open>A file with \<open>allowed_ips: null\<close> gives the empty list, and any IP passes.\<close>

theorem falsy_allowlist_witness:
  "init_globals plain_builtins
     (YMap [(YStr ''esp'', YMap [(YStr ''token'', YStr ''s3cret'')]),
            (YStr ''host'', YMap [(YStr ''port'', YInt 9000), (YStr ''allowed_ips'', YNull)])]) =
     Inr \<lparr>SECRET_TOKEN = ''s3cret'', LISTEN_PORT = 9000, ALLOWED_IPS = YSeq []\<rparr> \<and>
   authorized_client plain_builtins
     \<lparr>SECRET_TOKEN = ''s3cret'', LISTEN_PORT = 9000, ALLOWED_IPS = YSeq []\<rparr> ''203.0.113.5'' =
     Inr True"
proof -
  have g: "init_globals plain_builtins
     (YMap [(YStr ''esp'', YMap [(YStr ''token'', YStr ''s3cret'')]),
            (YStr ''host'', YMap [(YStr ''port'', YInt 9000), (YStr ''allowed_ips'', YNull)])]) =
     Inr \<lparr>SECRET_TOKEN = ''s3cret'', LISTEN_PORT = 9000, ALLOWED_IPS = YSeq []\<rparr>"
    by (simp add: init_globals_def init_SECRET_TOKEN_def init_HOST_CFG_def init_LISTEN_PORT_def
        init_ALLOWED_IPS_def)
  have h: "init_HOST_CFG
     (YMap [(YStr ''esp'', YMap [(YStr ''token'', YStr ''s3cret'')]),
            (YStr ''host'', YMap [(YStr ''port'', YInt 9000), (YStr ''allowed_ips'', YNull)])]) =
     Inr (YMap [(YStr ''port'', YInt 9000), (YStr ''allowed_ips'', YNull :: unit yaml)])"
    by (simp add: init_HOST_CFG_def)
  have k: "map_of [(YStr ''port'', YInt 9000), (YStr ''allowed_ips'', YNull :: unit yaml)]
     (YStr ''allowed_ips'') = Some YNull"
    by simp
  have f: "\<not> py_bool plain_builtins (YNull :: unit yaml)"
    by simp
  from falsy_allowlist [OF g h k f, of "''203.0.113.5''"] g show ?thesis
    by simp
qed

text \<open>
  C10. \<open>SECRET_TOKEN\<close> is \<open>str\<close> of the value of \<open>esp.token\<close>, and the token gate compares
  the supplied token with that string. For the YAML integer 123 the string is \<open>123\<close>, so
  the request token \<open>123\<close> passes the token gate.
\<close>

theorem secret_coerced:
  assumes "py_get CFG ''esp'' (YMap []) = Inr esp"
      and "py_get esp ''token'' (YStr []) = Inr v"
  shows "init_SECRET_TOKEN P CFG = Inr (py_str P v) \<and>
         (init_globals P CFG = Inr g \<longrightarrow>
            SECRET_TOKEN g = py_str P v \<and>
            (check_token g tok \<longleftrightarrow> py_str P v \<noteq> [] \<and> tok = py_str P v)) \<and>
         (v = YInt 123 \<longrightarrow> py_str P v = ''123'') \<and>
         (v = YInt 123 \<and> init_globals P CFG = Inr g \<longrightarrow> check_token g ''123'')"
proof -
  have s: "init_SECRET_TOKEN P CFG = Inr (py_str P v)"
    using assms by (simp add: init_SECRET_TOKEN_def)
  have c: "SECRET_TOKEN g = py_str P v \<and>
      (check_token g tok \<longleftrightarrow> py_str P v \<noteq> [] \<and> tok = py_str P v)"
    if "init_globals P CFG = Inr g" for tok
    using init_globals_check_token [OF that s] init_globals_secret [OF that] s by simp
  have i: "py_str P (YInt 123) = ''123''"
    by (simp add: str_int_123)
  have d: "check_token g ''123''" if "v = YInt 123 \<and> init_globals P CFG = Inr g"
    using c [of "''123''"] that i by simp
  from s c i d show ?thesis by blast
qed

text \<open>A file with \<open>token: 123\<close> accepts the request token \<open>123\<close> and refuses \<open>0123\<close>.\<close>

theorem secret_coerced_witness:
  "init_globals plain_builtins (YMap [(YStr ''esp'', YMap [(YStr ''token'', YInt 123)])]) =
     Inr \<lparr>SECRET_TOKEN = ''123'', LISTEN_PORT = 8888, ALLOWED_IPS = YSeq []\<rparr> \<and>
   check_token \<lparr>SECRET_TOKEN = ''123'', LISTEN_PORT = 8888, ALLOWED_IPS = YSeq [] :: unit yaml\<rparr>
     ''123'' \<and>
   \<not> check_token \<lparr>SECRET_TOKEN = ''123'', LISTEN_PORT = 8888, ALLOWED_IPS = YSeq [] :: unit yaml\<rparr>
     ''0123''"
proof -
  have e: "py_get (YMap [(YStr ''esp'', YMap [(YStr ''token'', YInt 123)])]) ''esp'' (YMap []) =
      Inr (YMap [(YStr ''token'', YInt 123 :: unit yaml)])"
    by simp
  have t: "py_get (YMap [(YStr ''token'', YInt 123 :: unit yaml)]) ''token'' (YStr []) =
      Inr (YInt 123)"
    by simp
  have g: "init_globals plain_builtins (YMap [(YStr ''esp'', YMap [(YStr ''token'', YInt 123)])]) =
     Inr \<lparr>SECRET_TOKEN = ''123'', LISTEN_PORT = 8888, ALLOWED_IPS = YSeq []\<rparr>"
    by (simp add: init_globals_def init_SECRET_TOKEN_def init_HOST_CFG_def init_LISTEN_PORT_def
        init_ALLOWED_IPS_def str_int_123)
  note spec = secret_coerced [OF e t, of plain_builtins
      "\<lparr>SECRET_TOKEN = ''123'', LISTEN_PORT = 8888, ALLOWED_IPS = YSeq []\<rparr>"]
  from spec [THEN conjunct2, THEN conjunct2, THEN conjunct2, rule_format, OF conjI [OF refl g]]
  have ok: "check_token \<lparr>SECRET_TOKEN = ''123'', LISTEN_PORT = 8888, ALLOWED_IPS = YSeq [] :: unit yaml\<rparr>
     ''123''" .
  have "\<not> check_token \<lparr>SECRET_TOKEN = ''123'', LISTEN_PORT = 8888, ALLOWED_IPS = YSeq [] :: unit yaml\<rparr>
     ''0123''"
    by (simp add: check_token_def)
  with g ok show ?thesis by blast
qed

end
